theory Spec2Isabelle
  imports Main "HOL-Library.Multiset" "HOL-Library.Monad_Syntax"
begin

section \<open>Data model of the deployment-step resource handlers\<close>

text \<open>
  The handlers of \<^verbatim>\<open>resource_deployment_step.go\<close> work on values of the client
  library: a deployment process holds an ordered slice of steps, a step holds an
  identifier, a property bag and a slice of actions, an action holds its own property
  bag. Only the fields the handlers touch are kept. A Go \<^verbatim>\<open>map[string]string\<close> is a
  partial map; reading a missing key yields the empty string (\<open>propOf\<close>).
\<close>

record DeploymentAction =
  ActionName :: string
  IsRequired :: bool
  ActionType :: string
  ActionProperties :: "string \<rightharpoonup> string"

record DeploymentStep =
  ID :: string
  Name :: string
  PackageRequirement :: string
  Condition :: string
  StartTrigger :: string
  Properties :: "string \<rightharpoonup> string"
  Actions :: "DeploymentAction list"

record DeploymentProcess =
  ProcessID :: string
  Steps :: "DeploymentStep list"

record Project =
  DeploymentProcessID :: string

definition propOf :: "(string \<rightharpoonup> string) \<Rightarrow> string \<Rightarrow> string" where
  "propOf m k = (case m k of None \<Rightarrow> [] | Some v \<Rightarrow> v)"

section \<open>The splice loops of resource\_deployment\_step.go\<close>

text \<open>
  The \<^verbatim>\<open>range\<close> loop of \<^verbatim>\<open>resourceDeploymentStepCreate\<close> (lines 164-180). The state
  is the pair of \<^verbatim>\<open>newStepAddedIndex\<close> (a Go \<^verbatim>\<open>int\<close>, \<open>-1\<close> while the new step has not
  been placed) and the slice \<^verbatim>\<open>deploymentProcess.Steps\<close> rebuilt so far; the loop index
  \<^verbatim>\<open>stepIndex\<close> is passed along. Slice lengths stay far below \<open>2^63\<close>, so the index is
  an unbounded integer here.
\<close>

fun createLoop ::
  "string \<Rightarrow> string \<Rightarrow> DeploymentStep \<Rightarrow> nat \<Rightarrow> DeploymentStep list \<Rightarrow>
   int \<times> DeploymentStep list \<Rightarrow> int \<times> DeploymentStep list" where
  "createLoop beforeStepId afterStepId newStep stepIndex [] st = st"
| "createLoop beforeStepId afterStepId newStep stepIndex (org # rest) (idx, acc) =
     (let (idx1, acc1) =
            (if idx = -1 \<and> ID org = beforeStepId
             then (int stepIndex, acc @ [newStep]) else (idx, acc));
          acc2 = acc1 @ [org];
          (idx3, acc3) =
            (if idx1 = -1 \<and> ID org = afterStepId
             then (int stepIndex + 1, acc2 @ [newStep]) else (idx1, acc2))
      in createLoop beforeStepId afterStepId newStep (Suc stepIndex) rest (idx3, acc3))"

text \<open>
  The loop followed by the final \<^verbatim>\<open>if newStepAddedIndex == -1\<close> (lines 182-185): the
  result is the index recorded for the new step and the new slice.
\<close>

definition createSplice ::
  "string \<Rightarrow> string \<Rightarrow> DeploymentStep \<Rightarrow> DeploymentStep list \<Rightarrow> int \<times> DeploymentStep list" where
  "createSplice beforeStepId afterStepId newStep orgSteps =
     (case createLoop beforeStepId afterStepId newStep 0 orgSteps (-1, []) of
        (idx, acc) \<Rightarrow> if idx = -1 then (int (length acc), acc @ [newStep]) else (idx, acc))"

text \<open>
  The loop of \<^verbatim>\<open>resourceDeploymentStepUpdate\<close> (lines 269-292): as on create, but a
  step whose identifier is the resource's own is not copied.
\<close>

fun updateLoop ::
  "string \<Rightarrow> string \<Rightarrow> string \<Rightarrow> DeploymentStep \<Rightarrow> nat \<Rightarrow> DeploymentStep list \<Rightarrow>
   int \<times> DeploymentStep list \<Rightarrow> int \<times> DeploymentStep list" where
  "updateLoop stepId beforeStepId afterStepId newStep stepIndex [] st = st"
| "updateLoop stepId beforeStepId afterStepId newStep stepIndex (org # rest) (idx, acc) =
     (let (idx1, acc1) =
            (if idx = -1 \<and> ID org = beforeStepId
             then (int stepIndex, acc @ [newStep]) else (idx, acc));
          acc2 = (if ID org \<noteq> stepId then acc1 @ [org] else acc1);
          (idx3, acc3) =
            (if idx1 = -1 \<and> ID org = afterStepId
             then (int stepIndex + 1, acc2 @ [newStep]) else (idx1, acc2))
      in updateLoop stepId beforeStepId afterStepId newStep (Suc stepIndex) rest (idx3, acc3))"

definition updateSplice ::
  "string \<Rightarrow> string \<Rightarrow> string \<Rightarrow> DeploymentStep \<Rightarrow> DeploymentStep list \<Rightarrow>
   int \<times> DeploymentStep list" where
  "updateSplice stepId beforeStepId afterStepId newStep orgSteps =
     (case updateLoop stepId beforeStepId afterStepId newStep 0 orgSteps (-1, []) of
        (idx, acc) \<Rightarrow> if idx = -1 then (int (length acc), acc @ [newStep]) else (idx, acc))"

text \<open>
  The loop of \<^verbatim>\<open>resourceDeploymentStepDelete\<close> (lines 324-331): every step whose
  identifier differs from the resource's is appended to the emptied slice.
\<close>

fun deleteLoop :: "string \<Rightarrow> DeploymentStep list \<Rightarrow> DeploymentStep list \<Rightarrow> DeploymentStep list" where
  "deleteLoop stepId [] acc = acc"
| "deleteLoop stepId (org # rest) acc =
     deleteLoop stepId rest (if ID org \<noteq> stepId then acc @ [org] else acc)"

definition deleteSplice :: "string \<Rightarrow> DeploymentStep list \<Rightarrow> DeploymentStep list" where
  "deleteSplice stepId orgSteps = deleteLoop stepId orgSteps []"

section \<open>Resource data, errors and the wrapped client\<close>

text \<open>
  The provider SDK's \<^verbatim>\<open>schema.ResourceData\<close> is a store of dynamically typed values
  plus the resource identifier. \<open>val\<close> is what a \<^verbatim>\<open>map[string]interface{}\<close> of a
  nested block holds; \<open>tfvalue\<close> is what a top-level key holds: a string, a bool, a
  list of strings, or the list of blocks of a \<^verbatim>\<open>TypeList\<close>/\<^verbatim>\<open>TypeSet\<close> of
  resources. The store is read after defaults have been merged in, \<^verbatim>\<open>d.Set\<close> keeps
  the value it is given (the SDK's own validation is not part of this repository).
  A failed Go type assertion or an index out of range panics: \<open>None\<close>.
\<close>

datatype val = VString string | VBool bool

type_synonym obj = "string \<rightharpoonup> val"

datatype tfvalue = TString string | TBool bool | TStrings "string list" | TObjects "obj list"

record ResourceData =
  rdId :: string
  rdFields :: "string \<rightharpoonup> tfvalue"

definition dSetId :: "string \<Rightarrow> ResourceData \<Rightarrow> ResourceData" where
  "dSetId v d = d\<lparr>rdId := v\<rparr>"

definition dSet :: "string \<Rightarrow> tfvalue \<Rightarrow> ResourceData \<Rightarrow> ResourceData" where
  "dSet k v d = d\<lparr>rdFields := (rdFields d)(k \<mapsto> v)\<rparr>"

text \<open>\<^verbatim>\<open>d.Get(k).(string)\<close> and \<^verbatim>\<open>d.Get(k).(bool)\<close>: an unset key reads as the zero value.\<close>

definition getString :: "ResourceData \<Rightarrow> string \<Rightarrow> string option" where
  "getString d k =
     (case rdFields d k of None \<Rightarrow> Some [] | Some (TString s) \<Rightarrow> Some s | Some _ \<Rightarrow> None)"

definition getBool :: "ResourceData \<Rightarrow> string \<Rightarrow> bool option" where
  "getBool d k =
     (case rdFields d k of None \<Rightarrow> Some False | Some (TBool b) \<Rightarrow> Some b | Some _ \<Rightarrow> None)"

text \<open>\<^verbatim>\<open>d.GetOk(k)\<close>: the value, when the key is set to something other than a zero value.\<close>

fun isZero :: "tfvalue \<Rightarrow> bool" where
  "isZero (TString s) = (s = [])"
| "isZero (TBool b) = (\<not> b)"
| "isZero (TStrings xs) = (xs = [])"
| "isZero (TObjects os) = (os = [])"

definition dGetOk :: "ResourceData \<Rightarrow> string \<Rightarrow> tfvalue option" where
  "dGetOk d k =
     (case rdFields d k of None \<Rightarrow> None | Some v \<Rightarrow> if isZero v then None else Some v)"

text \<open>
  Go errors. \<open>ErrItemNotFound\<close> is the client library's sentinel, compared by identity
  in the handlers; \<open>ClientError\<close> is any other error of the client;
  \<open>Errorf prefix e\<close> is the value of \<^verbatim>\<open>fmt.Errorf(".. %s", .., e.Error())\<close>: a new error
  whose text is \<open>prefix\<close> followed by the text of \<open>e\<close>.
\<close>

datatype goerror = ErrItemNotFound | ClientError string | Errorf string goerror

text \<open>
  The three client calls the handlers make. Each handler makes each call at most once,
  so a call is a function from its argument to an error or a value.
\<close>

record Client =
  Project_Get :: "string \<Rightarrow> goerror + Project"
  DeploymentProcess_Get :: "string \<Rightarrow> goerror + DeploymentProcess"
  DeploymentProcess_Update :: "DeploymentProcess \<Rightarrow> goerror + DeploymentProcess"

section \<open>The handlers of resource\_deployment\_step.go\<close>

text \<open>
  A handler returns Go's \<^verbatim>\<open>error\<close> (\<open>None\<close> is \<^verbatim>\<open>nil\<close>) and the resource data as it
  left it; the outer \<open>None\<close> is a panic. The step builder and the schema setter are the
  function arguments of the source; they may write to the resource data and may panic.
\<close>

type_synonym handlerResult = "(goerror option \<times> ResourceData) option"

definition resourceDeploymentStepCreate ::
  "Client \<Rightarrow> (ResourceData \<Rightarrow> (ResourceData \<times> DeploymentStep) option) \<Rightarrow> ResourceData \<Rightarrow>
   handlerResult" where
  "resourceDeploymentStepCreate client buildDeploymentProcessStepFunc d =
     do {
       projectId \<leftarrow> getString d ''project_id'';
       beforeStepId \<leftarrow> getString d ''before_step_id'';
       afterStepId \<leftarrow> getString d ''after_step_id'';
       case Project_Get client projectId of
         Inl err \<Rightarrow>
           Some (Some (Errorf (''error loading project '' @ [CHR 0x27] @ projectId @ [CHR 0x27] @ '': '') err), d)
       | Inr project \<Rightarrow>
           (case DeploymentProcess_Get client (DeploymentProcessID project) of
              Inl err \<Rightarrow>
                Some (Some (Errorf (''error reading deployment process '' @ [CHR 0x27] @
                                    DeploymentProcessID project @ [CHR 0x27] @ '': '') err), d)
            | Inr deploymentProcess \<Rightarrow>
                do {
                  (d1, newDeploymentStep) \<leftarrow> buildDeploymentProcessStepFunc d;
                  case createSplice beforeStepId afterStepId newDeploymentStep
                         (Steps deploymentProcess) of
                    (newStepAddedIndex, newSteps) \<Rightarrow>
                      (case DeploymentProcess_Update client (deploymentProcess\<lparr>Steps := newSteps\<rparr>) of
                         Inl err \<Rightarrow>
                           Some (Some (Errorf ''error updating deployment process for project: '' err), d1)
                       | Inr updateDeploymentProcess \<Rightarrow>
                           (let d2 = dSet ''deployment_process_id''
                                       (TString (ProcessID updateDeploymentProcess)) d1
                            in if nat newStepAddedIndex < length (Steps updateDeploymentProcess)
                               then Some (None,
                                      dSetId (ID (Steps updateDeploymentProcess ! nat newStepAddedIndex)) d2)
                               else None))
                })
     }"

text \<open>The search loop of the read handler (lines 223-229): the first step with the identifier.\<close>

fun findDeploymentStep :: "string \<Rightarrow> DeploymentStep list \<Rightarrow> DeploymentStep option" where
  "findDeploymentStep stepId [] = None"
| "findDeploymentStep stepId (s # rest) =
     (if ID s = stepId then Some s else findDeploymentStep stepId rest)"

definition resourceDeploymentStepRead ::
  "Client \<Rightarrow> (ResourceData \<Rightarrow> DeploymentStep \<Rightarrow> ResourceData option) \<Rightarrow> ResourceData \<Rightarrow>
   handlerResult" where
  "resourceDeploymentStepRead client setSchemaFunc d =
     do {
       let stepId = rdId d;
       processId \<leftarrow> getString d ''deployment_process_id'';
       case DeploymentProcess_Get client processId of
         Inl err \<Rightarrow>
           if err = ErrItemNotFound then Some (None, dSetId [] d)
           else Some (Some (Errorf (''error reading deployment process '' @ [CHR 0x27] @
                                    processId @ [CHR 0x27] @ '': '') err), d)
       | Inr deploymentProcess \<Rightarrow>
           (case findDeploymentStep stepId (Steps deploymentProcess) of
              None \<Rightarrow> Some (None, dSetId [] d)
            | Some deploymentStep \<Rightarrow>
                do { d1 \<leftarrow> setSchemaFunc d deploymentStep; Some (None, d1) })
     }"

definition resourceDeploymentStepUpdate ::
  "Client \<Rightarrow> (ResourceData \<Rightarrow> (ResourceData \<times> DeploymentStep) option) \<Rightarrow> ResourceData \<Rightarrow>
   handlerResult" where
  "resourceDeploymentStepUpdate client buildDeploymentProcessStepFunc d =
     do {
       let stepId = rdId d;
       processId \<leftarrow> getString d ''deployment_process_id'';
       beforeStepId \<leftarrow> getString d ''before_step_id'';
       afterStepId \<leftarrow> getString d ''after_step_id'';
       case DeploymentProcess_Get client processId of
         Inl err \<Rightarrow>
           if err = ErrItemNotFound then Some (None, dSetId [] d)
           else Some (Some (Errorf (''error reading deployment process id '' @ processId @ '': '') err), d)
       | Inr deploymentProcess \<Rightarrow>
           do {
             (d1, builtStep) \<leftarrow> buildDeploymentProcessStepFunc d;
             let newDeploymentStep = builtStep\<lparr>ID := stepId\<rparr>;
             case updateSplice stepId beforeStepId afterStepId newDeploymentStep
                    (Steps deploymentProcess) of
               (newStepAddedIndex, newSteps) \<Rightarrow>
                 (case DeploymentProcess_Update client (deploymentProcess\<lparr>Steps := newSteps\<rparr>) of
                    Inl err \<Rightarrow>
                      Some (Some (Errorf ''error updating deployment process for project: '' err), d1)
                  | Inr _ \<Rightarrow> Some (None, d1))
           }
     }"

definition resourceDeploymentStepDelete :: "Client \<Rightarrow> ResourceData \<Rightarrow> handlerResult" where
  "resourceDeploymentStepDelete client d =
     do {
       let stepId = rdId d;
       processId \<leftarrow> getString d ''deployment_process_id'';
       case DeploymentProcess_Get client processId of
         Inl err \<Rightarrow>
           if err = ErrItemNotFound then Some (None, dSetId [] d)
           else Some (Some (Errorf (''error reading deployment process id '' @ processId @ '': '') err), d)
       | Inr deploymentProcess \<Rightarrow>
           (case DeploymentProcess_Update client
                   (deploymentProcess\<lparr>Steps := deleteSplice stepId (Steps deploymentProcess)\<rparr>) of
              Inl err \<Rightarrow>
                Some (Some (Errorf ''error updating deployment process for project: '' err), d)
            | Inr _ \<Rightarrow> Some (None, dSetId [] d))
     }"

section \<open>The splice loops of the first\_step variant\<close>

text \<open>
  The second copy of the handlers (the unnamed source file, lines 316-338 and 439-463)
  replaces the \<^verbatim>\<open>before_step_id\<close> reference by the flag \<^verbatim>\<open>first_step\<close>: the new step
  is put in front when the flag is set and the loop is at index \<open>0\<close>.
\<close>

fun createLoop_firstStep ::
  "bool \<Rightarrow> string \<Rightarrow> DeploymentStep \<Rightarrow> nat \<Rightarrow> DeploymentStep list \<Rightarrow>
   int \<times> DeploymentStep list \<Rightarrow> int \<times> DeploymentStep list" where
  "createLoop_firstStep firstStep afterStepId newStep stepIndex [] st = st"
| "createLoop_firstStep firstStep afterStepId newStep stepIndex (org # rest) (idx, acc) =
     (let (idx1, acc1) =
            (if firstStep \<and> stepIndex = 0
             then (int stepIndex, acc @ [newStep]) else (idx, acc));
          acc2 = acc1 @ [org];
          (idx3, acc3) =
            (if idx1 = -1 \<and> ID org = afterStepId
             then (int stepIndex + 1, acc2 @ [newStep]) else (idx1, acc2))
      in createLoop_firstStep firstStep afterStepId newStep (Suc stepIndex) rest (idx3, acc3))"

definition createSplice_firstStep ::
  "bool \<Rightarrow> string \<Rightarrow> DeploymentStep \<Rightarrow> DeploymentStep list \<Rightarrow> int \<times> DeploymentStep list" where
  "createSplice_firstStep firstStep afterStepId newStep orgSteps =
     (case createLoop_firstStep firstStep afterStepId newStep 0 orgSteps (-1, []) of
        (idx, acc) \<Rightarrow> if idx = -1 then (int (length acc), acc @ [newStep]) else (idx, acc))"

fun updateLoop_firstStep ::
  "string \<Rightarrow> bool \<Rightarrow> string \<Rightarrow> DeploymentStep \<Rightarrow> nat \<Rightarrow> DeploymentStep list \<Rightarrow>
   int \<times> DeploymentStep list \<Rightarrow> int \<times> DeploymentStep list" where
  "updateLoop_firstStep stepId firstStep afterStepId newStep stepIndex [] st = st"
| "updateLoop_firstStep stepId firstStep afterStepId newStep stepIndex (org # rest) (idx, acc) =
     (let (idx1, acc1) =
            (if firstStep \<and> stepIndex = 0
             then (int stepIndex, acc @ [newStep]) else (idx, acc));
          acc2 = (if ID org \<noteq> stepId then acc1 @ [org] else acc1);
          (idx3, acc3) =
            (if idx1 = -1 \<and> ID org = afterStepId
             then (int stepIndex + 1, acc2 @ [newStep]) else (idx1, acc2))
      in updateLoop_firstStep stepId firstStep afterStepId newStep (Suc stepIndex) rest (idx3, acc3))"

definition updateSplice_firstStep ::
  "string \<Rightarrow> bool \<Rightarrow> string \<Rightarrow> DeploymentStep \<Rightarrow> DeploymentStep list \<Rightarrow>
   int \<times> DeploymentStep list" where
  "updateSplice_firstStep stepId firstStep afterStepId newStep orgSteps =
     (case updateLoop_firstStep stepId firstStep afterStepId newStep 0 orgSteps (-1, []) of
        (idx, acc) \<Rightarrow> if idx = -1 then (int (length acc), acc @ [newStep]) else (idx, acc))"

section \<open>The positional rule, stated on indices\<close>

text \<open>
  \<open>firstIndex P xs\<close> is the position of the first element satisfying \<open>P\<close>, and
  \<open>insertAt k x xs\<close> puts \<open>x\<close> in front of position \<open>k\<close> (\<open>k = length xs\<close> appends).
\<close>

fun firstIndex :: "('a \<Rightarrow> bool) \<Rightarrow> 'a list \<Rightarrow> nat option" where
  "firstIndex P [] = None"
| "firstIndex P (x # xs) = (if P x then Some 0 else map_option Suc (firstIndex P xs))"

definition insertAt :: "nat \<Rightarrow> 'a \<Rightarrow> 'a list \<Rightarrow> 'a list" where
  "insertAt k x xs = take k xs @ x # drop k xs"

text \<open>
  The rule in the specification's words: (a) a matching "before" reference puts the new
  step immediately before that step; (b) else a matching "after" reference puts it
  immediately after that step; (c) else it is appended.
\<close>

definition specInsertIndex :: "string \<Rightarrow> string \<Rightarrow> DeploymentStep list \<Rightarrow> nat" where
  "specInsertIndex beforeStepId afterStepId steps =
     (case firstIndex (\<lambda>s. ID s = beforeStepId) steps of
        Some b \<Rightarrow> b
      | None \<Rightarrow>
          (case firstIndex (\<lambda>s. ID s = afterStepId) steps of
             Some a \<Rightarrow> Suc a
           | None \<Rightarrow> length steps))"

definition specCreate ::
  "string \<Rightarrow> string \<Rightarrow> DeploymentStep \<Rightarrow> DeploymentStep list \<Rightarrow> DeploymentStep list" where
  "specCreate beforeStepId afterStepId newStep steps =
     insertAt (specInsertIndex beforeStepId afterStepId steps) newStep steps"

text \<open>
  The update rule in the specification's words: remove the edited step by its
  identifier, then apply the create rule to what is left.
\<close>

definition specUpdate ::
  "string \<Rightarrow> string \<Rightarrow> string \<Rightarrow> DeploymentStep \<Rightarrow> DeploymentStep list \<Rightarrow> DeploymentStep list" where
  "specUpdate stepId beforeStepId afterStepId newStep steps =
     specCreate beforeStepId afterStepId newStep (filter (\<lambda>s. ID s \<noteq> stepId) steps)"

text \<open>
  The rule of a single scan from the front: the first step that matches either
  reference decides, the "before" reference being tested first at each step. With
  \<open>b\<close> and \<open>a\<close> the first positions matching the "before" and the "after" reference,
  the new step goes to \<open>b\<close> when \<open>b \<le> a\<close> and to \<open>a + 1\<close> when \<open>a < b\<close>.
\<close>

definition scanMatch :: "string \<Rightarrow> string \<Rightarrow> DeploymentStep list \<Rightarrow> nat option" where
  "scanMatch beforeStepId afterStepId steps =
     (case (firstIndex (\<lambda>s. ID s = beforeStepId) steps,
            firstIndex (\<lambda>s. ID s = afterStepId) steps) of
        (Some b, Some a) \<Rightarrow> Some (if b \<le> a then b else Suc a)
      | (Some b, None) \<Rightarrow> Some b
      | (None, Some a) \<Rightarrow> Some (Suc a)
      | (None, None) \<Rightarrow> None)"

definition scanInsertIndex :: "string \<Rightarrow> string \<Rightarrow> DeploymentStep list \<Rightarrow> nat" where
  "scanInsertIndex beforeStepId afterStepId steps =
     (case scanMatch beforeStepId afterStepId steps of Some k \<Rightarrow> k | None \<Rightarrow> length steps)"

text \<open>The position the first\_step variant chooses: the front when the flag is set.\<close>

definition firstStepInsertIndex :: "bool \<Rightarrow> string \<Rightarrow> DeploymentStep list \<Rightarrow> nat" where
  "firstStepInsertIndex firstStep afterStepId steps =
     (if firstStep then 0
      else case firstIndex (\<lambda>s. ID s = afterStepId) steps of
             Some a \<Rightarrow> Suc a | None \<Rightarrow> length steps)"

text \<open>A step that carries nothing but an identifier, for the concrete runs below.\<close>

definition stepWithId :: "string \<Rightarrow> DeploymentStep" where
  "stepWithId i =
     \<lparr>ID = i, Name = [], PackageRequirement = [], Condition = [], StartTrigger = [],
      Properties = Map.empty, Actions = []\<rparr>"

section \<open>Go library functions used by the builders and setters\<close>

text \<open>
  \<^verbatim>\<open>strconv.ParseBool\<close> accepts exactly twelve spellings; anything else is an error
  (\<open>None\<close>). \<^verbatim>\<open>strconv.FormatBool\<close> prints \<^verbatim>\<open>true\<close> or \<^verbatim>\<open>false\<close>.
\<close>

definition strconv_ParseBool :: "string \<Rightarrow> bool option" where
  "strconv_ParseBool str =
     (if str \<in> set [''1'', ''t'', ''T'', ''TRUE'', ''true'', ''True''] then Some True
      else if str \<in> set [''0'', ''f'', ''F'', ''FALSE'', ''false'', ''False''] then Some False
      else None)"

definition strconv_FormatBool :: "bool \<Rightarrow> string" where
  "strconv_FormatBool b = (if b then ''true'' else ''false'')"

fun strings_Join :: "string list \<Rightarrow> string \<Rightarrow> string" where
  "strings_Join [] sep = []"
| "strings_Join [x] sep = x"
| "strings_Join (x # y # ys) sep = x @ sep @ strings_Join (y # ys) sep"

text \<open>\<^verbatim>\<open>strings.Contains(s, sub)\<close>: \<open>sub\<close> occurs in \<open>s\<close> at some offset.\<close>

fun strings_Contains :: "string \<Rightarrow> string \<Rightarrow> bool" where
  "strings_Contains [] sub = (sub = [])"
| "strings_Contains (c # cs) sub = (take (length sub) (c # cs) = sub \<or> strings_Contains cs sub)"

text \<open>
  \<^verbatim>\<open>strings.Split(s, sep)\<close> for a separator of one byte, the only way the source calls it
  (\<^verbatim>\<open>","\<close> and \<^verbatim>\<open>"\n"\<close>); the empty string splits into one empty string.
\<close>

fun strings_Split :: "string \<Rightarrow> char \<Rightarrow> string list" where
  "strings_Split [] sep = [[]]"
| "strings_Split (c # cs) sep =
     (if c = sep then [] # strings_Split cs sep
      else (case strings_Split cs sep of
              [] \<Rightarrow> [[c]]
            | y # ys \<Rightarrow> (c # y) # ys))"

section \<open>Helpers of the repository that are not among the source files\<close>

text \<open>
  The local struct of \<^verbatim>\<open>buildIisWebsiteDeploymentStep\<close> that is marshalled to JSON; a
  \<^verbatim>\<open>*string\<close> is an optional string.
\<close>

record bindingsStruct =
  Protocol :: "string option"
  IpAddress :: "string option"
  Port :: "string option"
  Host :: "string option"
  Thumbprint :: "string option"
  CertificateVariable :: "string option"
  RequireSni :: bool
  Enabled :: bool

text \<open>
  \<^verbatim>\<open>formatBool\<close>, \<^verbatim>\<open>formatStrPtr\<close> and \<^verbatim>\<open>getSliceFromTerraformTypeList\<close> are functions of
  the repository whose source is not given; \<^verbatim>\<open>strings.ToLower\<close> (Unicode aware) and
  \<^verbatim>\<open>json.Marshal\<close> belong to the Go library. The builders and setters take them as
  parameters, bundled in one record.
\<close>

record Helpers =
  formatBool :: "bool \<Rightarrow> string"
  formatStrPtr :: "string \<Rightarrow> string option"
  getSliceFromTerraformTypeList :: "tfvalue \<Rightarrow> string list"
  strings_ToLower :: "string \<Rightarrow> string"
  json_Marshal :: "bindingsStruct list \<Rightarrow> string"

section \<open>Type assertions and the property bag of the first action\<close>

text \<open>Go type assertions on \<^verbatim>\<open>interface{}\<close> values; a failed assertion panics.\<close>

fun asString :: "tfvalue \<Rightarrow> string option" where
  "asString (TString s) = Some s"
| "asString v = None"

fun asBool :: "tfvalue \<Rightarrow> bool option" where
  "asBool (TBool b) = Some b"
| "asBool v = None"

text \<open>\<^verbatim>\<open>raw.(*schema.Set)\<close> followed by \<^verbatim>\<open>.List()\<close>, and \<^verbatim>\<open>raw.([]interface{})\<close>.\<close>

fun asObjects :: "tfvalue \<Rightarrow> obj list option" where
  "asObjects (TObjects os) = Some os"
| "asObjects v = None"

text \<open>\<^verbatim>\<open>m[k].(string)\<close> and \<^verbatim>\<open>m[k].(bool)\<close> on a block: a missing key is \<^verbatim>\<open>nil\<close> and panics too.\<close>

fun valString :: "val option \<Rightarrow> string option" where
  "valString (Some (VString s)) = Some s"
| "valString v = None"

fun valBool :: "val option \<Rightarrow> bool option" where
  "valBool (Some (VBool b)) = Some b"
| "valBool v = None"

text \<open>
  \<^verbatim>\<open>deploymentStep.Actions[0].Properties\<close>: read, assign a key, and \<^verbatim>\<open>+=\<close> on a key.
  Indexing an empty \<^verbatim>\<open>Actions\<close> slice panics.
\<close>

definition actionProperties :: "DeploymentStep \<Rightarrow> (string \<rightharpoonup> string) option" where
  "actionProperties deploymentStep =
     (case Actions deploymentStep of [] \<Rightarrow> None | a # _ \<Rightarrow> Some (ActionProperties a))"

definition setActionProperty :: "string \<Rightarrow> string \<Rightarrow> DeploymentStep \<Rightarrow> DeploymentStep option" where
  "setActionProperty k v deploymentStep =
     (case Actions deploymentStep of
        [] \<Rightarrow> None
      | a # rest \<Rightarrow>
          Some (deploymentStep\<lparr>Actions :=
                  a\<lparr>ActionProperties := (ActionProperties a)(k \<mapsto> v)\<rparr> # rest\<rparr>))"

definition appendActionProperty :: "string \<Rightarrow> string \<Rightarrow> DeploymentStep \<Rightarrow> DeploymentStep option" where
  "appendActionProperty k v deploymentStep =
     do {
       props \<leftarrow> actionProperties deploymentStep;
       setActionProperty k (propOf props k @ v) deploymentStep
     }"

section \<open>Custom scripts: builder and setter (unnamed source file, lines 563-614, 704-744)\<close>

text \<open>The \<^verbatim>\<open>switch scriptType\<close> both functions start with: the schema key and the name stem.\<close>

definition scriptSwitch :: "string \<Rightarrow> string \<times> string" where
  "scriptSwitch scriptType =
     (if scriptType = ''pre'' then (''pre_deploy_script'', ''PreDeploy'')
      else if scriptType = ''deploy'' then (''deploy_script'', ''Deploy'')
      else if scriptType = ''post'' then (''post_deploy_script'', ''PostDeploy'')
      else ([], []))"

text \<open>The builder's \<^verbatim>\<open>switch script["type"]\<close>: the extension appended to the name stem.\<close>

definition scriptExtension :: "string \<Rightarrow> string" where
  "scriptExtension ty =
     (if ty = ''PowerShell'' then ''.ps1''
      else if ty = ''CSharp'' then ''.csx''
      else if ty = ''Bash'' then ''.sh''
      else if ty = ''FSharp'' then ''.fsx''
      else [])"

definition resourceDeploymentStep_AddPackageProperties_DeployScript ::
  "ResourceData \<Rightarrow> DeploymentStep \<Rightarrow> string \<Rightarrow> DeploymentStep option" where
  "resourceDeploymentStep_AddPackageProperties_DeployScript d deploymentStep scriptType =
     (case scriptSwitch scriptType of
        (scriptProp, scriptName) \<Rightarrow>
          (case dGetOk d scriptProp of
             None \<Rightarrow> Some deploymentStep
           | Some rawScript \<Rightarrow>
               do {
                 scriptSet \<leftarrow> asObjects rawScript;
                 case scriptSet of
                   [] \<Rightarrow> Some deploymentStep
                 | script # _ \<Rightarrow>
                     do {
                       ty \<leftarrow> valString (script ''type'');
                       let scriptName' = scriptName @ scriptExtension ty;
                       body \<leftarrow> valString (script ''body'');
                       step1 \<leftarrow> setActionProperty
                                  (''Octopus.Action.CustomScripts.'' @ scriptName') body deploymentStep;
                       props \<leftarrow> actionProperties step1;
                       if \<not> strings_Contains (propOf props ''Octopus.Action.EnabledFeatures'')
                              ''Octopus.Features.CustomScripts''
                       then appendActionProperty ''Octopus.Action.EnabledFeatures''
                              '',Octopus.Features.CustomScripts'' step1
                       else Some step1
                     }
               }))"

text \<open>
  The setter probes the four property keys in the order \<^verbatim>\<open>.ps1\<close>, \<^verbatim>\<open>.sh\<close>, \<^verbatim>\<open>.csx\<close>,
  \<^verbatim>\<open>.fsx\<close> and writes the type the source writes in each branch.
\<close>

definition resourceDeploymentStep_SetPackageSchema_DeployScript ::
  "ResourceData \<Rightarrow> DeploymentStep \<Rightarrow> string \<Rightarrow> ResourceData option" where
  "resourceDeploymentStep_SetPackageSchema_DeployScript d deploymentStep scriptType =
     (case scriptSwitch scriptType of
        (scriptProp, scriptNameStart) \<Rightarrow>
          do {
            props \<leftarrow> actionProperties deploymentStep;
            let script =
              (case props (''Octopus.Action.CustomScripts.'' @ scriptNameStart @ ''.ps1'') of
                 Some scriptValue \<Rightarrow>
                   [''type'' \<mapsto> VString ''PowerShell'', ''body'' \<mapsto> VString scriptValue]
               | None \<Rightarrow>
              (case props (''Octopus.Action.CustomScripts.'' @ scriptNameStart @ ''.sh'') of
                 Some scriptValue \<Rightarrow>
                   [''type'' \<mapsto> VString ''CSharp'', ''body'' \<mapsto> VString scriptValue]
               | None \<Rightarrow>
              (case props (''Octopus.Action.CustomScripts.'' @ scriptNameStart @ ''.csx'') of
                 Some scriptValue \<Rightarrow>
                   [''type'' \<mapsto> VString ''Bash'', ''body'' \<mapsto> VString scriptValue]
               | None \<Rightarrow>
              (case props (''Octopus.Action.CustomScripts.'' @ scriptNameStart @ ''.fsx'') of
                 Some scriptValue \<Rightarrow>
                   [''type'' \<mapsto> VString ''FSharp'', ''body'' \<mapsto> VString scriptValue]
               | None \<Rightarrow> Map.empty))));
            Some (if script ''type'' \<noteq> None then dSet scriptProp (TObjects [script]) d else d)
          })"

section \<open>Application pool: builder and setter (unnamed source file, lines 652-682, 777-814)\<close>

definition iisPropPrefix :: "string \<Rightarrow> string" where
  "iisPropPrefix iisType =
     (if iisType = ''IISWebSite'' then ''Octopus.Action.IISWebSite''
      else ''Octopus.Action.IISWebSite.'' @ iisType)"

definition resourceDeploymentStep_AddIisAppPoolProperties ::
  "Helpers \<Rightarrow> ResourceData \<Rightarrow> DeploymentStep \<Rightarrow> string \<Rightarrow> DeploymentStep option" where
  "resourceDeploymentStep_AddIisAppPoolProperties h d deploymentStep iisType =
     (let propPrefix = iisPropPrefix iisType in
      case dGetOk d ''application_pool'' of
        None \<Rightarrow> Some deploymentStep
      | Some rawAppPool \<Rightarrow>
          do {
            appPoolSet \<leftarrow> asObjects rawAppPool;
            case appPoolSet of
              [] \<Rightarrow> Some deploymentStep
            | appPool # _ \<Rightarrow>
                do {
                  name \<leftarrow> valString (appPool ''name'');
                  s1 \<leftarrow> setActionProperty (propPrefix @ ''.ApplicationPoolName'') name deploymentStep;
                  framework \<leftarrow> valString (appPool ''framework'');
                  s2 \<leftarrow> setActionProperty (propPrefix @ ''.ApplicationPoolFrameworkVersion'') framework s1;
                  identity \<leftarrow> valString (appPool ''identity'');
                  s3 \<leftarrow> setActionProperty (propPrefix @ ''.ApplicationPoolIdentityType'') identity s2;
                  s4 \<leftarrow> (case appPool ''username'' of
                           None \<Rightarrow> Some s3
                         | Some appPoolUser \<Rightarrow>
                             do {
                               u \<leftarrow> valString (Some appPoolUser);
                               setActionProperty (propPrefix @ ''.ApplicationPoolUsername'') u s3
                             });
                  s5 \<leftarrow> (case appPool ''password'' of
                           None \<Rightarrow> Some s4
                         | Some appPoolPassword \<Rightarrow>
                             do {
                               pw \<leftarrow> valString (Some appPoolPassword);
                               setActionProperty (propPrefix @ ''.ApplicationPoolPassword'') pw s4
                             });
                  start \<leftarrow> valBool (appPool ''start'');
                  setActionProperty ''Octopus.Action.IISWebSite.StartApplicationPool''
                    (formatBool h start) s5
                }
          })"

text \<open>
  The setter collects the block key by key; the parsed start flag is stored under the
  key the source names in line 809.
\<close>

definition resourceDeploymentStep_SetIisAppPoolSchema ::
  "ResourceData \<Rightarrow> DeploymentStep \<Rightarrow> string \<Rightarrow> ResourceData option" where
  "resourceDeploymentStep_SetIisAppPoolSchema d deploymentStep iisType =
     (let propPrefix = iisPropPrefix iisType in
      do {
        props \<leftarrow> actionProperties deploymentStep;
        let a0 = (Map.empty :: obj);
        let a1 = (case props (propPrefix @ ''.ApplicationPoolName'') of
                    Some appPoolName \<Rightarrow> a0(''name'' \<mapsto> VString appPoolName) | None \<Rightarrow> a0);
        let a2 = (case props (propPrefix @ ''.ApplicationPoolFrameworkVersion'') of
                    Some appPoolFramework \<Rightarrow> a1(''framework'' \<mapsto> VString appPoolFramework)
                  | None \<Rightarrow> a1);
        let a3 = (case props (propPrefix @ ''.ApplicationPoolIdentityType'') of
                    Some appPoolIdentity \<Rightarrow> a2(''identity'' \<mapsto> VString appPoolIdentity)
                  | None \<Rightarrow> a2);
        let a4 = (case props (propPrefix @ ''.ApplicationPoolUsername'') of
                    Some appPoolUsername \<Rightarrow> a3(''username'' \<mapsto> VString appPoolUsername)
                  | None \<Rightarrow> a3);
        let a5 = (case props (propPrefix @ ''.ApplicationPoolPassword'') of
                    Some appPoolPassword \<Rightarrow> a4(''password'' \<mapsto> VString appPoolPassword)
                  | None \<Rightarrow> a4);
        let a6 = (case props ''Octopus.Action.IISWebSite.StartApplicationPool'' of
                    Some startAppPoolString \<Rightarrow>
                      (case strconv_ParseBool startAppPoolString of
                         Some startAppPool \<Rightarrow> a5(''password'' \<mapsto> VBool startAppPool)
                       | None \<Rightarrow> a5)
                  | None \<Rightarrow> a5);
        Some (dSet ''application_pool'' (TObjects [a6]) d)
      })"

section \<open>Shared step builders and setters (unnamed source file, lines 525-561, 616-650, 687-702, 746-775)\<close>

definition resourceDeploymentStep_CreateBasicStep ::
  "Helpers \<Rightarrow> ResourceData \<Rightarrow> string \<Rightarrow> DeploymentStep option" where
  "resourceDeploymentStep_CreateBasicStep h d actionType =
     do {
       stepName \<leftarrow> getString d ''step_name'';
       stepCondition \<leftarrow> getString d ''step_condition'';
       required \<leftarrow> getBool d ''required'';
       stepStartTrigger \<leftarrow> getString d ''step_start_trigger'';
       let deploymentStep =
         \<lparr>ID = [], Name = stepName, PackageRequirement = ''LetOctopusDecide'',
          Condition = stepCondition, StartTrigger = stepStartTrigger, Properties = Map.empty,
          Actions = [\<lparr>ActionName = stepName, IsRequired = required, ActionType = actionType,
                      ActionProperties = Map.empty\<rparr>]\<rparr>;
       step1 \<leftarrow> (case dGetOk d ''run_on_server'' of
                  None \<Rightarrow> Some deploymentStep
                | Some runOnServer \<Rightarrow>
                    do {
                      b \<leftarrow> asBool runOnServer;
                      setActionProperty ''Octopus.Action.RunOnServer'' (strconv_FormatBool b)
                        deploymentStep
                    });
       case dGetOk d ''target_roles'' of
         None \<Rightarrow> Some step1
       | Some targetRoles \<Rightarrow>
           Some (step1\<lparr>Properties := (Properties step1)
                   (''Octopus.Action.TargetRoles'' \<mapsto>
                      strings_Join (getSliceFromTerraformTypeList h targetRoles) '','')\<rparr>)
     }"

definition resourceDeploymentStep_AddPackageProperties ::
  "Helpers \<Rightarrow> ResourceData \<Rightarrow> DeploymentStep \<Rightarrow> DeploymentStep option" where
  "resourceDeploymentStep_AddPackageProperties h d deploymentStep =
     do {
       s1 \<leftarrow> setActionProperty ''Octopus.Action.Package.DownloadOnTentacle'' ''False'' deploymentStep;
       feedId \<leftarrow> getString d ''feed_id'';
       s2 \<leftarrow> setActionProperty ''Octopus.Action.Package.FeedId'' feedId s1;
       package \<leftarrow> getString d ''package'';
       s3 \<leftarrow> setActionProperty ''Octopus.Action.Package.PackageId'' package s2;
       s4 \<leftarrow> (case dGetOk d ''json_file_variable_replacement'' of
                None \<Rightarrow> Some s3
              | Some jsonFileVariableReplacement \<Rightarrow>
                  do {
                    j \<leftarrow> asString jsonFileVariableReplacement;
                    t1 \<leftarrow> setActionProperty
                            ''Octopus.Action.Package.JsonConfigurationVariablesTargets'' j s3;
                    t2 \<leftarrow> setActionProperty
                            ''Octopus.Action.Package.JsonConfigurationVariablesEnabled'' ''True'' t1;
                    appendActionProperty ''Octopus.Action.EnabledFeatures''
                      '',Octopus.Features.JsonConfigurationVariables'' t2
                  });
       s5 \<leftarrow> (case dGetOk d ''variable_substitution_in_files'' of
                None \<Rightarrow> Some s4
              | Some variableSubstitutionInFiles \<Rightarrow>
                  do {
                    t1 \<leftarrow> setActionProperty ''Octopus.Action.SubstituteInFiles.TargetFiles''
                            (strings_Join
                               (getSliceFromTerraformTypeList h variableSubstitutionInFiles)
                               [CHR 0x0A]) s4;
                    t2 \<leftarrow> setActionProperty ''Octopus.Action.SubstituteInFiles.Enabled'' ''True'' t1;
                    appendActionProperty ''Octopus.Action.EnabledFeatures''
                      '',Octopus.Features.SubstituteInFiles'' t2
                  });
       configurationTransforms \<leftarrow> getBool d ''configuration_transforms'';
       s6 \<leftarrow> (if configurationTransforms
              then do {
                     t1 \<leftarrow> setActionProperty
                             ''Octopus.Action.Package.AutomaticallyRunConfigurationTransformationFiles''
                             (formatBool h configurationTransforms) s5;
                     appendActionProperty ''Octopus.Action.EnabledFeatures''
                       '',Octopus.Features.ConfigurationTransforms'' t1
                   }
              else Some s5);
       configurationVariables \<leftarrow> getBool d ''configuration_variables'';
       s7 \<leftarrow> (if configurationVariables
              then do {
                     t1 \<leftarrow> setActionProperty
                             ''Octopus.Action.Package.AutomaticallyUpdateAppSettingsAndConnectionStrings''
                             (formatBool h configurationVariables) s6;
                     appendActionProperty ''Octopus.Action.EnabledFeatures''
                       '',Octopus.Features.ConfigurationVariables'' t1
                   }
              else Some s6);
       s8 \<leftarrow> resourceDeploymentStep_AddPackageProperties_DeployScript d s7 ''pre'';
       s9 \<leftarrow> resourceDeploymentStep_AddPackageProperties_DeployScript d s8 ''deploy'';
       resourceDeploymentStep_AddPackageProperties_DeployScript d s9 ''post''
     }"

definition resourceDeploymentStep_SetBasicSchema ::
  "Helpers \<Rightarrow> ResourceData \<Rightarrow> DeploymentStep \<Rightarrow> ResourceData option" where
  "resourceDeploymentStep_SetBasicSchema h d deploymentStep =
     (let d1 = dSet ''step_name'' (TString (Name deploymentStep)) d;
          d2 = dSet ''step_condition''
                 (TString (strings_ToLower h (Condition deploymentStep))) d1
      in case Actions deploymentStep of
           [] \<Rightarrow> None
         | a # _ \<Rightarrow>
             (let d3 = dSet ''required'' (TBool (IsRequired a)) d2;
                  d4 = dSet ''step_start_trigger'' (TString (StartTrigger deploymentStep)) d3;
                  d5 = (case Properties deploymentStep ''Octopus.Action.TargetRoles'' of
                          Some targetRoles \<Rightarrow>
                            if targetRoles \<noteq> []
                            then dSet ''target_roles''
                                   (TStrings (strings_Split targetRoles (CHR '',''))) d4
                            else d4
                        | None \<Rightarrow> d4);
                  d6 = (case Properties deploymentStep ''Octopus.Action.RunOnServer'' of
                          Some runOnServer \<Rightarrow> dSet ''run_on_server'' (TString runOnServer) d5
                        | None \<Rightarrow> d5)
              in Some d6))"

text \<open>\<^verbatim>\<open>if s, ok := props[k]; ok { if b, err := strconv.ParseBool(s); err == nil { d.Set(key, b) } }\<close>\<close>

definition setParsedBool ::
  "(string \<rightharpoonup> string) \<Rightarrow> string \<Rightarrow> string \<Rightarrow> ResourceData \<Rightarrow> ResourceData" where
  "setParsedBool props k key d =
     (case props k of
        Some str \<Rightarrow> (case strconv_ParseBool str of Some b \<Rightarrow> dSet key (TBool b) d | None \<Rightarrow> d)
      | None \<Rightarrow> d)"

text \<open>\<^verbatim>\<open>if v, ok := props[k]; ok { d.Set(key, v) }\<close>\<close>

definition setPresentString ::
  "(string \<rightharpoonup> string) \<Rightarrow> string \<Rightarrow> string \<Rightarrow> ResourceData \<Rightarrow> ResourceData" where
  "setPresentString props k key d =
     (case props k of Some v \<Rightarrow> dSet key (TString v) d | None \<Rightarrow> d)"

definition resourceDeploymentStep_SetPackageSchema ::
  "ResourceData \<Rightarrow> DeploymentStep \<Rightarrow> ResourceData option" where
  "resourceDeploymentStep_SetPackageSchema d deploymentStep =
     do {
       props \<leftarrow> actionProperties deploymentStep;
       let d1 = dSet ''feed_id'' (TString (propOf props ''Octopus.Action.Package.FeedId'')) d;
       let d2 = dSet ''package'' (TString (propOf props ''Octopus.Action.Package.PackageId'')) d1;
       let d3 = setPresentString props
                  ''Octopus.Action.Package.JsonConfigurationVariablesTargets''
                  ''json_file_variable_replacement'' d2;
       let d4 = (case props ''Octopus.Action.SubstituteInFiles.TargetFiles'' of
                   Some variableSubstitutionInFiles \<Rightarrow>
                     if variableSubstitutionInFiles \<noteq> []
                     then dSet ''variable_substitution_in_files''
                            (TStrings (strings_Split variableSubstitutionInFiles (CHR 0x0A))) d3
                     else d3
                 | None \<Rightarrow> d3);
       let d5 = setParsedBool props
                  ''Octopus.Action.Package.AutomaticallyRunConfigurationTransformationFiles''
                  ''configuration_transforms'' d4;
       let d6 = setParsedBool props
                  ''Octopus.Action.Package.AutomaticallyUpdateAppSettingsAndConnectionStrings''
                  ''configuration_variables'' d5;
       d7 \<leftarrow> resourceDeploymentStep_SetPackageSchema_DeployScript d6 deploymentStep ''pre'';
       d8 \<leftarrow> resourceDeploymentStep_SetPackageSchema_DeployScript d7 deploymentStep ''deploy'';
       resourceDeploymentStep_SetPackageSchema_DeployScript d8 deploymentStep ''post''
     }"

section \<open>The IIS website step (resource\_deployment\_step\_iis\_website.go)\<close>

text \<open>The loop that flattens the \<^verbatim>\<open>binding\<close> blocks (lines 187-200).\<close>

fun flattenBindings :: "Helpers \<Rightarrow> obj list \<Rightarrow> bindingsStruct list option" where
  "flattenBindings h [] = Some []"
| "flattenBindings h (binding # rest) =
     do {
       protocol \<leftarrow> valString (binding ''protocol'');
       ip \<leftarrow> valString (binding ''ip'');
       port \<leftarrow> valString (binding ''port'');
       host \<leftarrow> valString (binding ''host'');
       thumbprint \<leftarrow> valString (binding ''thumbprint'');
       certVar \<leftarrow> valString (binding ''cert_var'');
       requireSni \<leftarrow> valBool (binding ''require_sni'');
       enable \<leftarrow> valBool (binding ''enable'');
       more \<leftarrow> flattenBindings h rest;
       Some (\<lparr>Protocol = formatStrPtr h protocol, IpAddress = formatStrPtr h ip,
              Port = formatStrPtr h port, Host = formatStrPtr h host,
              Thumbprint = formatStrPtr h thumbprint,
              CertificateVariable = formatStrPtr h certVar,
              RequireSni = requireSni, Enabled = enable\<rparr> # more)
     }"

text \<open>The default HTTP binding of the \<^verbatim>\<open>else\<close> branch (lines 205-215).\<close>

definition defaultBinding :: "Helpers \<Rightarrow> bindingsStruct" where
  "defaultBinding h =
     \<lparr>Protocol = formatStrPtr h ''http'', IpAddress = formatStrPtr h ''*'',
      Port = formatStrPtr h ''80'', Host = formatStrPtr h [],
      Thumbprint = formatStrPtr h [], CertificateVariable = formatStrPtr h [],
      RequireSni = False, Enabled = True\<rparr>"

definition buildIisWebsiteDeploymentStep ::
  "Helpers \<Rightarrow> ResourceData \<Rightarrow> (ResourceData \<times> DeploymentStep) option" where
  "buildIisWebsiteDeploymentStep h d0 =
     do {
       let d = dSet ''deployment_type'' (TString ''webSite'') d0;
       s0 \<leftarrow> resourceDeploymentStep_CreateBasicStep h d ''Octopus.IIS'';
       s1 \<leftarrow> setActionProperty ''Octopus.Action.EnabledFeatures'' ''Octopus.Features.IISWebSite'' s0;
       s2 \<leftarrow> resourceDeploymentStep_AddPackageProperties h d s1;
       s3 \<leftarrow> resourceDeploymentStep_AddIisAppPoolProperties h d s2 ''IISWebSite'';
       deploymentType \<leftarrow> getString d ''deployment_type'';
       s4 \<leftarrow> setActionProperty ''Octopus.Action.IISWebSite.DeploymentType'' deploymentType s3;
       s5 \<leftarrow> setActionProperty ''Octopus.Action.IISWebSite.CreateOrUpdateWebSite'' ''True'' s4;
       s6 \<leftarrow> setActionProperty ''Octopus.Action.IISWebSite.WebApplication.CreateOrUpdate'' ''False'' s5;
       s7 \<leftarrow> setActionProperty ''Octopus.Action.IISWebSite.VirtualDirectory.CreateOrUpdate'' ''False'' s6;
       (d', s8) \<leftarrow> (case dGetOk d ''relative_path'' of
                      Some relativePath \<Rightarrow>
                        do {
                          r \<leftarrow> asString relativePath;
                          t \<leftarrow> setActionProperty ''Octopus.Action.IISWebSite.PhysicalPath'' r s7;
                          Some (dSet ''path_type'' (TString ''relativeToPackageRoot'') d, t)
                        }
                    | None \<Rightarrow> Some (dSet ''path_type'' (TString ''packageRoot'') d, s7));
       pathType \<leftarrow> getString d' ''path_type'';
       s9 \<leftarrow> setActionProperty ''Octopus.Action.IISWebSite.WebRootType'' pathType s8;
       startWebSite \<leftarrow> getBool d' ''start_web_site'';
       s10 \<leftarrow> setActionProperty ''Octopus.Action.IISWebSite.StartWebSite''
                (formatBool h startWebSite) s9;
       websiteName \<leftarrow> getString d' ''website_name'';
       s11 \<leftarrow> setActionProperty ''Octopus.Action.IISWebSite.WebSiteName'' websiteName s10;
       anonymousAuthentication \<leftarrow> getBool d' ''anonymous_authentication'';
       s12 \<leftarrow> setActionProperty ''Octopus.Action.IISWebSite.EnableAnonymousAuthentication''
                (formatBool h anonymousAuthentication) s11;
       basicAuthentication \<leftarrow> getBool d' ''basic_authentication'';
       s13 \<leftarrow> setActionProperty ''Octopus.Action.IISWebSite.EnableBasicAuthentication''
                (formatBool h basicAuthentication) s12;
       windowsAuthentication \<leftarrow> getBool d' ''windows_authentication'';
       s14 \<leftarrow> setActionProperty ''Octopus.Action.IISWebSite.EnableWindowsAuthentication''
                (formatBool h windowsAuthentication) s13;
       bindingsArray \<leftarrow> (case dGetOk d' ''binding'' of
                           Some rawBindings \<Rightarrow>
                             do { bindings \<leftarrow> asObjects rawBindings; flattenBindings h bindings }
                         | None \<Rightarrow> Some [defaultBinding h]);
       s15 \<leftarrow> setActionProperty ''Octopus.Action.IISWebSite.Bindings''
                (json_Marshal h bindingsArray) s14;
       Some (d', s15)
     }"

text \<open>
  The setter of the website step (lines 231-277). It ends at the comment
  \<^verbatim>\<open>TODO: Expand Bindings\<close>: the \<^verbatim>\<open>Bindings\<close> property is never read.
\<close>

definition setIisWebsiteSchema ::
  "Helpers \<Rightarrow> ResourceData \<Rightarrow> DeploymentStep \<Rightarrow> ResourceData option" where
  "setIisWebsiteSchema h d deploymentStep =
     do {
       d1 \<leftarrow> resourceDeploymentStep_SetBasicSchema h d deploymentStep;
       d2 \<leftarrow> resourceDeploymentStep_SetPackageSchema d1 deploymentStep;
       d3 \<leftarrow> resourceDeploymentStep_SetIisAppPoolSchema d2 deploymentStep ''IISWebSite'';
       props \<leftarrow> actionProperties deploymentStep;
       let d4 = dSet ''deployment_type''
                  (TString (propOf props ''Octopus.Action.IISWebSite.DeploymentType'')) d3;
       let d5 = setPresentString props ''Octopus.Action.IISWebSite.WebRootType'' ''path_type'' d4;
       let d6 = setPresentString props ''Octopus.Action.IISWebSite.PhysicalPath'' ''relative_path'' d5;
       let d7 = setParsedBool props ''Octopus.Action.IISWebSite.StartWebSite'' ''start_web_site'' d6;
       let d8 = setPresentString props ''Octopus.Action.IISWebSite.WebSiteName'' ''website_name'' d7;
       let d9 = setParsedBool props ''Octopus.Action.IISWebSite.EnableAnonymousAuthentication''
                  ''anonymous_authentication'' d8;
       let d10 = setParsedBool props ''Octopus.Action.IISWebSite.EnableBasicAuthentication''
                   ''basic_authentication'' d9;
       let d11 = setParsedBool props ''Octopus.Action.IISWebSite.EnableWindowsAuthentication''
                   ''windows_authentication'' d10;
       Some d11
     }"

section \<open>Observations and sample values for the round trips\<close>

text \<open>The value a block-valued key holds under a key of its first block.\<close>

definition blockField :: "ResourceData \<Rightarrow> string \<Rightarrow> string \<Rightarrow> val option" where
  "blockField d key field =
     (case rdFields d key of Some (TObjects (b # _)) \<Rightarrow> b field | _ \<Rightarrow> None)"

text \<open>A step with one action and empty property bags, as the builders start from.\<close>

definition emptyStep :: DeploymentStep where
  "emptyStep =
     \<lparr>ID = [], Name = [], PackageRequirement = [], Condition = [], StartTrigger = [],
      Properties = Map.empty,
      Actions = [\<lparr>ActionName = [], IsRequired = False, ActionType = [],
                  ActionProperties = Map.empty\<rparr>]\<rparr>"

text \<open>An application-pool block and a binding block with every key of their schemas.\<close>

definition appPoolBlock :: "string \<Rightarrow> string \<Rightarrow> string \<Rightarrow> string \<Rightarrow> string \<Rightarrow> bool \<Rightarrow> obj" where
  "appPoolBlock name framework identity username password start =
     [''name'' \<mapsto> VString name, ''framework'' \<mapsto> VString framework,
      ''identity'' \<mapsto> VString identity, ''username'' \<mapsto> VString username,
      ''password'' \<mapsto> VString password, ''start'' \<mapsto> VBool start]"

definition scriptBlock :: "string \<Rightarrow> string \<Rightarrow> obj" where
  "scriptBlock ty body = [''type'' \<mapsto> VString ty, ''body'' \<mapsto> VString body]"

definition bindingBlock ::
  "string \<Rightarrow> string \<Rightarrow> string \<Rightarrow> string \<Rightarrow> string \<Rightarrow> string \<Rightarrow> bool \<Rightarrow> bool \<Rightarrow> obj" where
  "bindingBlock protocol ip port host thumbprint certVar requireSni enable =
     [''protocol'' \<mapsto> VString protocol, ''ip'' \<mapsto> VString ip, ''port'' \<mapsto> VString port,
      ''host'' \<mapsto> VString host, ''thumbprint'' \<mapsto> VString thumbprint,
      ''cert_var'' \<mapsto> VString certVar, ''require_sni'' \<mapsto> VBool requireSni,
      ''enable'' \<mapsto> VBool enable]"

text \<open>
  What "the handler returns an error wrapping \<open>e\<close>" means on a handler's result: it
  returned (no panic), and the error is one built by \<^verbatim>\<open>fmt.Errorf\<close> from the text of \<open>e\<close>.
\<close>

fun wrapsError :: "goerror \<Rightarrow> handlerResult \<Rightarrow> bool" where
  "wrapsError e (Some (Some (Errorf prefix e'), d)) = (e' = e)"
| "wrapsError e r = False"

text \<open>
  Concrete collaborators for the runs below: a client whose three calls return fixed
  results, and resource data given by its identifier and a list of key-value pairs.
\<close>

definition clientReturning ::
  "goerror + Project \<Rightarrow> goerror + DeploymentProcess \<Rightarrow> goerror + DeploymentProcess \<Rightarrow> Client" where
  "clientReturning p g u =
     \<lparr>Project_Get = (\<lambda>_. p), DeploymentProcess_Get = (\<lambda>_. g),
      DeploymentProcess_Update = (\<lambda>_. u)\<rparr>"

definition resourceWith :: "string \<Rightarrow> (string \<times> tfvalue) list \<Rightarrow> ResourceData" where
  "resourceWith i kvs = \<lparr>rdId = i, rdFields = map_of kvs\<rparr>"

text \<open>A complete configuration of an IIS website step with one HTTPS binding.\<close>

definition websiteConfig :: ResourceData where
  "websiteConfig =
     resourceWith []
       [(''project_id'', TString ''Projects-1''),
        (''step_name'', TString ''Deploy Website''),
        (''step_condition'', TString ''success''),
        (''step_start_trigger'', TString ''StartAfterPrevious''),
        (''target_roles'', TStrings [''web'']),
        (''feed_id'', TString ''feeds-builtin''),
        (''package'', TString ''Website''),
        (''website_name'', TString ''Default Web Site''),
        (''application_pool'',
           TObjects [appPoolBlock ''DefaultAppPool'' ''v4.0'' ''ApplicationPoolIdentity'' [] [] True]),
        (''binding'',
           TObjects [bindingBlock ''https'' ''*'' ''443'' ''example.org'' ''ABCDEF'' [] False True])]"

text \<open>
  The resource data a later read starts from when the stored binding has gone stale:
  the same resource, known as \<^verbatim>\<open>Steps-1\<close>, whose \<^verbatim>\<open>binding\<close> block still names port
  \<^verbatim>\<open>8443\<close>.
\<close>

definition websiteState :: ResourceData where
  "websiteState =
     dSetId ''Steps-1''
       (dSet ''binding''
          (TObjects [bindingBlock ''https'' ''*'' ''8443'' ''example.org'' ''ABCDEF'' [] False True])
          websiteConfig)"

text \<open>
  One choice of the helper parameters for the concrete runs (every theorem about the
  builders and setters holds for all choices): \<^verbatim>\<open>True\<close>/\<^verbatim>\<open>False\<close> as the source
  writes its literal flags, a pointer to the given string, the strings of a string list,
  lower-casing of ASCII letters, and the JSON text of the bindings for strings that need
  no escaping.
\<close>

definition asciiToLower :: "char \<Rightarrow> char" where
  "asciiToLower c =
     (let n = (of_char c :: nat) in if 65 \<le> n \<and> n \<le> 90 then char_of (n + 32) else c)"

definition jsonQuote :: "string \<Rightarrow> string" where
  "jsonQuote str = CHR 0x22 # str @ [CHR 0x22]"

definition jsonStrPtr :: "string option \<Rightarrow> string" where
  "jsonStrPtr p = (case p of None \<Rightarrow> ''null'' | Some str \<Rightarrow> jsonQuote str)"

definition jsonBool :: "bool \<Rightarrow> string" where
  "jsonBool b = (if b then ''true'' else ''false'')"

definition jsonBinding :: "bindingsStruct \<Rightarrow> string" where
  "jsonBinding b =
     ''{'' @ jsonQuote ''protocol'' @ '':'' @ jsonStrPtr (Protocol b)
     @ '','' @ jsonQuote ''ipAddress'' @ '':'' @ jsonStrPtr (IpAddress b)
     @ '','' @ jsonQuote ''port'' @ '':'' @ jsonStrPtr (Port b)
     @ '','' @ jsonQuote ''host'' @ '':'' @ jsonStrPtr (Host b)
     @ '','' @ jsonQuote ''thumbprint'' @ '':'' @ jsonStrPtr (Thumbprint b)
     @ '','' @ jsonQuote ''certificateVariable'' @ '':'' @ jsonStrPtr (CertificateVariable b)
     @ '','' @ jsonQuote ''requireSni'' @ '':'' @ jsonBool (RequireSni b)
     @ '','' @ jsonQuote ''enabled'' @ '':'' @ jsonBool (Enabled b) @ ''}''"

definition sampleHelpers :: Helpers where
  "sampleHelpers =
     \<lparr>formatBool = (\<lambda>b. if b then ''True'' else ''False''),
      formatStrPtr = Some,
      getSliceFromTerraformTypeList = (\<lambda>v. case v of TStrings xs \<Rightarrow> xs | _ \<Rightarrow> []),
      strings_ToLower = map asciiToLower,
      json_Marshal = (\<lambda>bs. ''['' @ strings_Join (map jsonBinding bs) '','' @ '']'')\<rparr>"

section \<open>Properties of the delete loop\<close>

lemma deleteLoop_filter:
  "deleteLoop stepId steps acc = acc @ filter (\<lambda>s. ID s \<noteq> stepId) steps"
  by (induction steps arbitrary: acc) simp_all

text \<open>
  Claim C4. For every list of existing steps, the list the delete handler builds holds
  exactly the steps whose identifier differs from the resource's step identifier, in
  their original relative order; nothing is inserted.
\<close>

theorem deleteSplice_is_filter:
  "deleteSplice stepId steps = filter (\<lambda>s. ID s \<noteq> stepId) steps"
  by (simp add: deleteSplice_def deleteLoop_filter)

section \<open>Properties of the create loop\<close>

lemma createLoop_placed:
  "idx \<noteq> -1 \<Longrightarrow> createLoop b a n i xs (idx, acc) = (idx, acc @ xs)"
  by (induction xs arbitrary: i acc) simp_all

lemma scanMatch_Nil: "scanMatch b a [] = None"
  by (simp add: scanMatch_def)

lemma scanMatch_Cons:
  "scanMatch b a (x # xs) =
     (if ID x = b then Some 0 else if ID x = a then Some 1
      else map_option Suc (scanMatch b a xs))"
  by (auto simp: scanMatch_def split: option.splits)

lemma createLoop_scan:
  "createLoop b a n i xs (-1, acc) =
     (case scanMatch b a xs of
        None \<Rightarrow> (-1, acc @ xs)
      | Some k \<Rightarrow> (int (i + k), acc @ insertAt k n xs))"
proof (induction xs arbitrary: i acc)
  case Nil
  show ?case by (simp add: scanMatch_Nil)
next
  case (Cons x xs)
  show ?case
  proof (cases "ID x = b")
    case True
    then show ?thesis
      by (simp add: scanMatch_Cons createLoop_placed insertAt_def)
  next
    case nb: False
    show ?thesis
    proof (cases "ID x = a")
      case True
      with nb show ?thesis
        by (simp add: scanMatch_Cons createLoop_placed insertAt_def)
    next
      case False
      with nb show ?thesis
        by (simp add: scanMatch_Cons Cons.IH insertAt_def split: option.splits)
    qed
  qed
qed

lemma scanMatch_le: "scanMatch b a xs = Some k \<Longrightarrow> k \<le> length xs"
  by (induction xs arbitrary: k) (auto simp: scanMatch_Nil scanMatch_Cons split: if_splits)

lemma scanInsertIndex_le: "scanInsertIndex b a xs \<le> length xs"
  by (auto simp: scanInsertIndex_def split: option.splits dest: scanMatch_le)

lemma createSplice_scan:
  "createSplice b a n xs =
     (int (scanInsertIndex b a xs), insertAt (scanInsertIndex b a xs) n xs)"
  by (simp add: createSplice_def createLoop_scan scanInsertIndex_def insertAt_def
      split: option.splits)

lemma length_insertAt: "k \<le> length xs \<Longrightarrow> length (insertAt k x xs) = Suc (length xs)"
  by (simp add: insertAt_def)

lemma mset_insertAt: "mset (insertAt k x xs) = add_mset x (mset xs)"
proof -
  have "mset (take k xs) + mset (drop k xs) = mset xs"
    by (metis append_take_drop_id mset_append)
  then show ?thesis by (simp add: insertAt_def)
qed

text \<open>
  Claim C1, as stated: a matching "before" reference always decides. It fails when a
  step matching the "after" reference stands in front of the step matching the "before"
  reference: with the steps 1, 2, 3, "before" = 3 and "after" = 1, the loop places the
  new step behind step 1, the claim's rule in front of step 3.
\<close>

theorem createSplice_before_rule_counterexample:
  "snd (createSplice ''Steps-3'' ''Steps-1'' (stepWithId ''new'')
          [stepWithId ''Steps-1'', stepWithId ''Steps-2'', stepWithId ''Steps-3''])
   \<noteq> specCreate ''Steps-3'' ''Steps-1'' (stepWithId ''new'')
          [stepWithId ''Steps-1'', stepWithId ''Steps-2'', stepWithId ''Steps-3'']"
  by (simp add: createSplice_def specCreate_def specInsertIndex_def insertAt_def stepWithId_def)

text \<open>
  Claim C1, amended. The create loop places the new step by the claim's rule (before the
  first step matching the "before" reference, else after the first step matching the
  "after" reference, else at the end), except when both references match and the first
  step matching "after" stands strictly in front of the first step matching "before":
  then the new step goes immediately after that "after" step.
\<close>

theorem createSplice_positional_rule:
  "snd (createSplice beforeStepId afterStepId newStep steps) =
     (case (firstIndex (\<lambda>s. ID s = beforeStepId) steps,
            firstIndex (\<lambda>s. ID s = afterStepId) steps) of
        (Some b, Some a) \<Rightarrow>
          if a < b then insertAt (Suc a) newStep steps
          else specCreate beforeStepId afterStepId newStep steps
      | _ \<Rightarrow> specCreate beforeStepId afterStepId newStep steps)"
  by (simp add: createSplice_scan scanInsertIndex_def scanMatch_def specCreate_def
      specInsertIndex_def split: option.splits)

text \<open>
  Claim C3, as stated: when both references match, the new step goes immediately before
  the step matched by "before", wherever the two matches are. With the steps 1, 2, 3, 4,
  "before" = 4 and "after" = 2 both references match, and the new step is not put in
  front of step 4 (position 3).
\<close>

theorem createSplice_both_match_counterexample:
  "firstIndex (\<lambda>s. ID s = ''Steps-4'')
     [stepWithId ''Steps-1'', stepWithId ''Steps-2'', stepWithId ''Steps-3'',
      stepWithId ''Steps-4''] = Some 3
   \<and> firstIndex (\<lambda>s. ID s = ''Steps-2'')
     [stepWithId ''Steps-1'', stepWithId ''Steps-2'', stepWithId ''Steps-3'',
      stepWithId ''Steps-4''] = Some 1
   \<and> snd (createSplice ''Steps-4'' ''Steps-2'' (stepWithId ''new'')
          [stepWithId ''Steps-1'', stepWithId ''Steps-2'', stepWithId ''Steps-3'',
           stepWithId ''Steps-4''])
     \<noteq> insertAt 3 (stepWithId ''new'')
          [stepWithId ''Steps-1'', stepWithId ''Steps-2'', stepWithId ''Steps-3'',
           stepWithId ''Steps-4'']"
  by (simp add: createSplice_def insertAt_def stepWithId_def)

text \<open>
  Claim C3, amended. When both references match, with \<open>b\<close> and \<open>a\<close> the first positions
  matching "before" and "after": the new step goes immediately before step \<open>b\<close> when
  \<open>b \<le> a\<close> (the "before" step is reached first, or both references name one step),
  and immediately after step \<open>a\<close> when \<open>a < b\<close>.
\<close>

theorem createSplice_both_match:
  assumes "firstIndex (\<lambda>s. ID s = beforeStepId) steps = Some b"
    and "firstIndex (\<lambda>s. ID s = afterStepId) steps = Some a"
  shows "createSplice beforeStepId afterStepId newStep steps =
           (if b \<le> a then (int b, insertAt b newStep steps)
            else (int (Suc a), insertAt (Suc a) newStep steps))"
  using assms by (simp add: createSplice_scan scanInsertIndex_def scanMatch_def)

theorem createSplice_both_match_witness:
  "createSplice ''Steps-2'' ''Steps-3'' (stepWithId ''new'')
     [stepWithId ''Steps-1'', stepWithId ''Steps-2'', stepWithId ''Steps-3''] =
   (1, [stepWithId ''Steps-1'', stepWithId ''new'', stepWithId ''Steps-2'',
        stepWithId ''Steps-3''])"
  using createSplice_both_match [of "''Steps-2''"
      "[stepWithId ''Steps-1'', stepWithId ''Steps-2'', stepWithId ''Steps-3'']" 1
      "''Steps-3''" 2 "stepWithId ''new''"]
  by (simp add: insertAt_def stepWithId_def)

text \<open>
  Claim C5. For every original list of length \<open>N\<close> and all reference identifiers, the
  list built by the create loop is the original list with the new step put in at one
  position \<open>k \<le> N\<close> (the index the loop records): the original steps keep their order,
  the length is \<open>N + 1\<close>, and as a multiset the result is the original plus one
  occurrence of the new step.
\<close>

theorem createSplice_inserts_once:
  "snd (createSplice b a n steps) = insertAt (nat (fst (createSplice b a n steps))) n steps
   \<and> 0 \<le> fst (createSplice b a n steps)
   \<and> nat (fst (createSplice b a n steps)) \<le> length steps
   \<and> length (snd (createSplice b a n steps)) = Suc (length steps)
   \<and> mset (snd (createSplice b a n steps)) = add_mset n (mset steps)"
  by (simp add: createSplice_scan scanInsertIndex_le length_insertAt mset_insertAt)

subsection \<open>The first\_step variant of the create loop\<close>

lemma createLoop_firstStep_placed:
  "idx \<noteq> -1 \<Longrightarrow> 0 < i \<Longrightarrow> createLoop_firstStep fs a n i xs (idx, acc) = (idx, acc @ xs)"
  by (induction xs arbitrary: i acc) simp_all

lemma createLoop_firstStep_scan:
  "\<not> fs \<or> 0 < i \<Longrightarrow>
   createLoop_firstStep fs a n i xs (-1, acc) =
     (case firstIndex (\<lambda>s. ID s = a) xs of
        None \<Rightarrow> (-1, acc @ xs)
      | Some k \<Rightarrow> (int (i + k) + 1, acc @ insertAt (Suc k) n xs))"
proof (induction xs arbitrary: i acc)
  case Nil
  show ?case by simp
next
  case (Cons x xs)
  show ?case
  proof (cases "ID x = a")
    case True
    with Cons.prems show ?thesis
      by (auto simp: createLoop_firstStep_placed insertAt_def)
  next
    case False
    with Cons.prems show ?thesis
      by (auto simp: Cons.IH insertAt_def split: option.splits)
  qed
qed

lemma firstIndex_less: "firstIndex P xs = Some k \<Longrightarrow> k < length xs"
  by (induction xs arbitrary: k) (auto split: if_splits)

lemma createSplice_firstStep_scan:
  "createSplice_firstStep fs a n xs =
     (int (firstStepInsertIndex fs a xs), insertAt (firstStepInsertIndex fs a xs) n xs)"
proof (cases fs)
  case False
  then show ?thesis
    by (simp add: createSplice_firstStep_def createLoop_firstStep_scan firstStepInsertIndex_def
        insertAt_def split: option.splits)
next
  case True
  then show ?thesis
    by (cases xs)
      (simp_all add: createSplice_firstStep_def createLoop_firstStep_placed
        firstStepInsertIndex_def insertAt_def)
qed

lemma firstStepInsertIndex_le: "firstStepInsertIndex fs a xs \<le> length xs"
  by (auto simp: firstStepInsertIndex_def split: option.splits dest: firstIndex_less)

lemma createSplice_firstStep_inserts_once:
  "length (snd (createSplice_firstStep fs a n steps)) = Suc (length steps)
   \<and> mset (snd (createSplice_firstStep fs a n steps)) = add_mset n (mset steps)"
  by (simp add: createSplice_firstStep_scan firstStepInsertIndex_le length_insertAt mset_insertAt)

section \<open>Properties of the update loop\<close>

lemma updateLoop_as_createLoop:
  assumes "b \<noteq> sid" and "a \<noteq> sid" and "(idx = -1) = (idx' = -1)"
  shows "snd (updateLoop sid b a n i xs (idx, acc)) =
           snd (createLoop b a n j (filter (\<lambda>s. ID s \<noteq> sid) xs) (idx', acc))
         \<and> (fst (updateLoop sid b a n i xs (idx, acc)) = -1) =
           (fst (createLoop b a n j (filter (\<lambda>s. ID s \<noteq> sid) xs) (idx', acc)) = -1)"
  using assms(3)
proof (induction xs arbitrary: i j idx idx' acc)
  case Nil
  then show ?case by simp
next
  case (Cons x xs)
  show ?case
  proof (cases "ID x = sid")
    case True
    with assms(1,2) have nb: "ID x \<noteq> b" and na: "ID x \<noteq> a" by auto
    from True nb na Cons.IH[OF Cons.prems] show ?thesis by simp
  next
    case False
    have succ: "(int i + 1 = -1) = (int j + 1 = -1)"
      by auto
    show ?thesis
    proof (cases "idx = -1")
      case placed: False
      with Cons.prems have "idx' \<noteq> -1" by simp
      with placed False Cons.IH[of idx idx'] Cons.prems show ?thesis by simp
    next
      case True
      with Cons.prems have t': "idx' = -1" by simp
      show ?thesis
      proof (cases "ID x = b")
        case xb: True
        from xb True t' False Cons.IH[of "int i" "int j"] show ?thesis by simp
      next
        case nb: False
        show ?thesis
        proof (cases "ID x = a")
          case xa: True
          from xa nb True t' False Cons.IH[of "int i + 1" "int j + 1"] succ
          show ?thesis by simp
        next
          case na: False
          from na nb True t' False Cons.IH[of "-1" "-1"] show ?thesis by simp
        qed
      qed
    qed
  qed
qed

text \<open>
  Claim C2, as stated: the update handler's list is the one obtained by removing the
  edited step and then applying the create rule to the rest. It fails when a reference
  names the edited step itself: with the steps 1, 2, the edited step 1 and "before" = 1,
  the loop puts the new content in front (where step 1 stood), while removing step 1
  first leaves nothing to match and appends.
\<close>

theorem updateSplice_self_reference_counterexample:
  "snd (updateSplice ''Steps-1'' ''Steps-1'' [] (stepWithId ''Steps-1'')
          [stepWithId ''Steps-1'', stepWithId ''Steps-2''])
   \<noteq> snd (createSplice ''Steps-1'' [] (stepWithId ''Steps-1'')
          (filter (\<lambda>s. ID s \<noteq> ''Steps-1'')
             [stepWithId ''Steps-1'', stepWithId ''Steps-2'']))"
  by (simp add: createSplice_def updateSplice_def stepWithId_def)

text \<open>
  Claim C2, amended. Whenever neither the "before" nor the "after" reference is the
  resource's own identifier, the list the update loop builds is the list the create loop
  builds from the original list with the edited step removed.
\<close>

theorem updateSplice_remove_then_insert:
  assumes "beforeStepId \<noteq> stepId" and "afterStepId \<noteq> stepId"
  shows "snd (updateSplice stepId beforeStepId afterStepId newStep steps) =
         snd (createSplice beforeStepId afterStepId newStep
                (filter (\<lambda>s. ID s \<noteq> stepId) steps))"
proof -
  let ?u = "updateLoop stepId beforeStepId afterStepId newStep 0 steps (-1, [])"
  let ?c = "createLoop beforeStepId afterStepId newStep 0
              (filter (\<lambda>s. ID s \<noteq> stepId) steps) (-1, [])"
  have "snd ?u = snd ?c \<and> (fst ?u = -1) = (fst ?c = -1)"
    using updateLoop_as_createLoop[OF assms, of "-1" "-1"] by simp
  then show ?thesis
    by (cases ?u; cases ?c) (auto simp: updateSplice_def createSplice_def)
qed

theorem updateSplice_remove_then_insert_witness:
  "snd (updateSplice ''Steps-2'' ''Steps-1'' [] (stepWithId ''Steps-2'')
          [stepWithId ''Steps-1'', stepWithId ''Steps-2'', stepWithId ''Steps-3'']) =
   [stepWithId ''Steps-2'', stepWithId ''Steps-1'', stepWithId ''Steps-3'']"
  using updateSplice_remove_then_insert [of "''Steps-1''" "''Steps-2''" "[]"
      "stepWithId ''Steps-2''"
      "[stepWithId ''Steps-1'', stepWithId ''Steps-2'', stepWithId ''Steps-3'']"]
  by (simp add: createSplice_def stepWithId_def)

section \<open>The handlers: item-not-found and error propagation\<close>

lemma findDeploymentStep_None:
  "stepId \<notin> ID ` set steps \<Longrightarrow> findDeploymentStep stepId steps = None"
  by (induction steps) auto

lemma read_not_found:
  assumes "getString d ''deployment_process_id'' = Some processId"
  shows "DeploymentProcess_Get client processId = Inl ErrItemNotFound \<Longrightarrow>
           resourceDeploymentStepRead client setF d = Some (None, dSetId [] d)"
    and "DeploymentProcess_Get client processId = Inr dp \<Longrightarrow> rdId d \<notin> ID ` set (Steps dp) \<Longrightarrow>
           resourceDeploymentStepRead client setF d = Some (None, dSetId [] d)"
  using assms by (simp_all add: resourceDeploymentStepRead_def findDeploymentStep_None)

lemma update_not_found:
  assumes "getString d ''deployment_process_id'' = Some processId"
    and "getString d ''before_step_id'' = Some b"
    and "getString d ''after_step_id'' = Some a"
    and "DeploymentProcess_Get client processId = Inl ErrItemNotFound"
  shows "resourceDeploymentStepUpdate client build d = Some (None, dSetId [] d)"
  using assms by (simp add: resourceDeploymentStepUpdate_def)

lemma delete_not_found:
  assumes "getString d ''deployment_process_id'' = Some processId"
    and "DeploymentProcess_Get client processId = Inl ErrItemNotFound"
  shows "resourceDeploymentStepDelete client d = Some (None, dSetId [] d)"
  using assms by (simp add: resourceDeploymentStepDelete_def)

text \<open>
  Claim C10. With the process identifier readable from the resource data: when the
  deployment-process fetch returns the item-not-found error, the read, update and delete
  handlers clear the resource identifier and return \<^verbatim>\<open>nil\<close>; the read handler does the
  same when the fetch succeeds and no step of the returned list carries the resource's
  identifier.
\<close>

theorem handlers_item_not_found:
  assumes "getString d ''deployment_process_id'' = Some processId"
    and "getString d ''before_step_id'' = Some b"
    and "getString d ''after_step_id'' = Some a"
  shows "(DeploymentProcess_Get client processId = Inl ErrItemNotFound \<longrightarrow>
            resourceDeploymentStepRead client setF d = Some (None, dSetId [] d)
          \<and> resourceDeploymentStepUpdate client build d = Some (None, dSetId [] d)
          \<and> resourceDeploymentStepDelete client d = Some (None, dSetId [] d))
       \<and> (\<forall>dp. DeploymentProcess_Get client processId = Inr dp
                 \<and> rdId d \<notin> ID ` set (Steps dp) \<longrightarrow>
            resourceDeploymentStepRead client setF d = Some (None, dSetId [] d))"
  using assms
  by (simp add: read_not_found update_not_found delete_not_found)

lemma rdId_dSetId: "rdId (dSetId v d) = v"
  by (simp add: dSetId_def)

theorem handlers_item_not_found_witness:
  "resourceDeploymentStepRead
     (clientReturning (Inl (ClientError ''unused'')) (Inl ErrItemNotFound) (Inl (ClientError ''unused'')))
     (\<lambda>d s. Some d)
     (resourceWith ''Steps-1'' [(''deployment_process_id'', TString ''deploymentprocess-Projects-1'')])
   = Some (None, resourceWith [] [(''deployment_process_id'', TString ''deploymentprocess-Projects-1'')])
   \<and> resourceDeploymentStepUpdate
     (clientReturning (Inl (ClientError ''unused'')) (Inl ErrItemNotFound) (Inl (ClientError ''unused'')))
     (\<lambda>d. Some (d, stepWithId []))
     (resourceWith ''Steps-1'' [(''deployment_process_id'', TString ''deploymentprocess-Projects-1'')])
   = Some (None, resourceWith [] [(''deployment_process_id'', TString ''deploymentprocess-Projects-1'')])
   \<and> resourceDeploymentStepDelete
     (clientReturning (Inl (ClientError ''unused'')) (Inl ErrItemNotFound) (Inl (ClientError ''unused'')))
     (resourceWith ''Steps-1'' [(''deployment_process_id'', TString ''deploymentprocess-Projects-1'')])
   = Some (None, resourceWith [] [(''deployment_process_id'', TString ''deploymentprocess-Projects-1'')])
   \<and> resourceDeploymentStepRead
     (clientReturning (Inl (ClientError ''unused''))
        (Inr \<lparr>ProcessID = ''deploymentprocess-Projects-1'', Steps = [stepWithId ''Steps-2'']\<rparr>)
        (Inl (ClientError ''unused'')))
     (\<lambda>d s. Some d)
     (resourceWith ''Steps-1'' [(''deployment_process_id'', TString ''deploymentprocess-Projects-1'')])
   = Some (None, resourceWith [] [(''deployment_process_id'', TString ''deploymentprocess-Projects-1'')])"
  using handlers_item_not_found [of
      "resourceWith ''Steps-1'' [(''deployment_process_id'', TString ''deploymentprocess-Projects-1'')]"
      "''deploymentprocess-Projects-1''" "[]" "[]"
      "clientReturning (Inl (ClientError ''unused'')) (Inl ErrItemNotFound) (Inl (ClientError ''unused''))"
      "\<lambda>d s. Some d" "\<lambda>d. Some (d, stepWithId [])"]
    handlers_item_not_found [of
      "resourceWith ''Steps-1'' [(''deployment_process_id'', TString ''deploymentprocess-Projects-1'')]"
      "''deploymentprocess-Projects-1''" "[]" "[]"
      "clientReturning (Inl (ClientError ''unused''))
        (Inr \<lparr>ProcessID = ''deploymentprocess-Projects-1'', Steps = [stepWithId ''Steps-2'']\<rparr>)
        (Inl (ClientError ''unused''))"
      "\<lambda>d s. Some d"]
  by (simp add: getString_def resourceWith_def clientReturning_def dSetId_def stepWithId_def)

lemma create_propagates:
  assumes "getString d ''project_id'' = Some projectId"
    and "getString d ''before_step_id'' = Some b"
    and "getString d ''after_step_id'' = Some a"
  shows "Project_Get client projectId = Inl e \<Longrightarrow>
           wrapsError e (resourceDeploymentStepCreate client build d)"
    and "Project_Get client projectId = Inr project \<Longrightarrow>
         DeploymentProcess_Get client (DeploymentProcessID project) = Inl e \<Longrightarrow>
           wrapsError e (resourceDeploymentStepCreate client build d)"
    and "Project_Get client projectId = Inr project \<Longrightarrow>
         DeploymentProcess_Get client (DeploymentProcessID project) = Inr dp \<Longrightarrow>
         build d = Some (d1, newStep) \<Longrightarrow>
         DeploymentProcess_Update client
           (dp\<lparr>Steps := snd (createSplice b a newStep (Steps dp))\<rparr>) = Inl e \<Longrightarrow>
           wrapsError e (resourceDeploymentStepCreate client build d)"
  using assms
  by (auto simp: resourceDeploymentStepCreate_def split: prod.splits)

lemma read_propagates:
  assumes "getString d ''deployment_process_id'' = Some processId"
    and "DeploymentProcess_Get client processId = Inl e" and "e \<noteq> ErrItemNotFound"
  shows "wrapsError e (resourceDeploymentStepRead client setF d)"
  using assms by (simp add: resourceDeploymentStepRead_def)

lemma update_propagates:
  assumes "getString d ''deployment_process_id'' = Some processId"
    and "getString d ''before_step_id'' = Some b"
    and "getString d ''after_step_id'' = Some a"
  shows "DeploymentProcess_Get client processId = Inl e \<Longrightarrow> e \<noteq> ErrItemNotFound \<Longrightarrow>
           wrapsError e (resourceDeploymentStepUpdate client build d)"
    and "DeploymentProcess_Get client processId = Inr dp \<Longrightarrow>
         build d = Some (d1, built) \<Longrightarrow>
         DeploymentProcess_Update client
           (dp\<lparr>Steps := snd (updateSplice (rdId d) b a (built\<lparr>ID := rdId d\<rparr>) (Steps dp))\<rparr>) = Inl e \<Longrightarrow>
           wrapsError e (resourceDeploymentStepUpdate client build d)"
  using assms
  by (auto simp: resourceDeploymentStepUpdate_def Let_def split: prod.splits)

lemma delete_propagates:
  assumes "getString d ''deployment_process_id'' = Some processId"
  shows "DeploymentProcess_Get client processId = Inl e \<Longrightarrow> e \<noteq> ErrItemNotFound \<Longrightarrow>
           wrapsError e (resourceDeploymentStepDelete client d)"
    and "DeploymentProcess_Get client processId = Inr dp \<Longrightarrow>
         DeploymentProcess_Update client
           (dp\<lparr>Steps := deleteSplice (rdId d) (Steps dp)\<rparr>) = Inl e \<Longrightarrow>
           wrapsError e (resourceDeploymentStepDelete client d)"
  using assms
  by (simp_all add: resourceDeploymentStepDelete_def)

text \<open>
  Claim C9, as stated: every handler turns every error of a client call into an error
  of its own. The read handler does not: when the fetch returns the item-not-found
  error, it clears the identifier and returns \<^verbatim>\<open>nil\<close>.
\<close>

theorem read_item_not_found_counterexample:
  "DeploymentProcess_Get
     (clientReturning (Inl (ClientError ''unused'')) (Inl ErrItemNotFound) (Inl (ClientError ''unused'')))
     ''deploymentprocess-Projects-1'' = Inl ErrItemNotFound
   \<and> resourceDeploymentStepRead
     (clientReturning (Inl (ClientError ''unused'')) (Inl ErrItemNotFound) (Inl (ClientError ''unused'')))
     (\<lambda>d s. Some d)
     (resourceWith ''Steps-1'' [(''deployment_process_id'', TString ''deploymentprocess-Projects-1'')])
   = Some (None, resourceWith [] [(''deployment_process_id'', TString ''deploymentprocess-Projects-1'')])"
  by (simp add: resourceDeploymentStepRead_def getString_def resourceWith_def clientReturning_def dSetId_def)

text \<open>
  Claim C9, amended. With the identifiers readable from the resource data: the create
  handler returns an error wrapping every error of the project lookup, of the
  deployment-process fetch and of the deployment-process update; the read, update and
  delete handlers return an error wrapping every error of the fetch other than
  item-not-found; the update and delete handlers return an error wrapping every error of
  the deployment-process update.
\<close>

theorem handlers_propagate_client_errors:
  assumes "getString d ''project_id'' = Some projectId"
    and "getString d ''deployment_process_id'' = Some processId"
    and "getString d ''before_step_id'' = Some b"
    and "getString d ''after_step_id'' = Some a"
  shows "(Project_Get client projectId = Inl e \<longrightarrow>
            wrapsError e (resourceDeploymentStepCreate client build d))
       \<and> (\<forall>project. Project_Get client projectId = Inr project
              \<and> DeploymentProcess_Get client (DeploymentProcessID project) = Inl e \<longrightarrow>
            wrapsError e (resourceDeploymentStepCreate client build d))
       \<and> (\<forall>project dp d1 newStep. Project_Get client projectId = Inr project
              \<and> DeploymentProcess_Get client (DeploymentProcessID project) = Inr dp
              \<and> build d = Some (d1, newStep)
              \<and> DeploymentProcess_Update client
                   (dp\<lparr>Steps := snd (createSplice b a newStep (Steps dp))\<rparr>) = Inl e \<longrightarrow>
            wrapsError e (resourceDeploymentStepCreate client build d))
       \<and> (DeploymentProcess_Get client processId = Inl e \<and> e \<noteq> ErrItemNotFound \<longrightarrow>
            wrapsError e (resourceDeploymentStepRead client setF d)
          \<and> wrapsError e (resourceDeploymentStepUpdate client build d)
          \<and> wrapsError e (resourceDeploymentStepDelete client d))
       \<and> (\<forall>dp d1 built. DeploymentProcess_Get client processId = Inr dp
              \<and> build d = Some (d1, built)
              \<and> DeploymentProcess_Update client
                   (dp\<lparr>Steps := snd (updateSplice (rdId d) b a (built\<lparr>ID := rdId d\<rparr>)
                                        (Steps dp))\<rparr>) = Inl e \<longrightarrow>
            wrapsError e (resourceDeploymentStepUpdate client build d))
       \<and> (\<forall>dp. DeploymentProcess_Get client processId = Inr dp
              \<and> DeploymentProcess_Update client
                   (dp\<lparr>Steps := deleteSplice (rdId d) (Steps dp)\<rparr>) = Inl e \<longrightarrow>
            wrapsError e (resourceDeploymentStepDelete client d))"
proof -
  note c = create_propagates[OF assms(1,3,4)]
  note u = update_propagates[OF assms(2,3,4)]
  note dl = delete_propagates[OF assms(2)]
  note r = read_propagates[OF assms(2)]
  show ?thesis
    by (intro conjI allI impI; (elim conjE)?) (rule c u dl r; assumption)+
qed

theorem handlers_propagate_client_errors_witness:
  "wrapsError (ClientError ''connection refused'')
     (resourceDeploymentStepCreate
        (clientReturning (Inl (ClientError ''connection refused'')) (Inl ErrItemNotFound)
           (Inl (ClientError ''unused'')))
        (\<lambda>d. Some (d, stepWithId []))
        (resourceWith [] [(''project_id'', TString ''Projects-1'')]))
   \<and> wrapsError ErrItemNotFound
     (resourceDeploymentStepCreate
        (clientReturning (Inr \<lparr>DeploymentProcessID = ''deploymentprocess-Projects-1''\<rparr>)
           (Inl ErrItemNotFound) (Inl (ClientError ''unused'')))
        (\<lambda>d. Some (d, stepWithId []))
        (resourceWith [] [(''project_id'', TString ''Projects-1'')]))
   \<and> wrapsError (ClientError ''timeout'')
     (resourceDeploymentStepRead
        (clientReturning (Inl (ClientError ''unused'')) (Inl (ClientError ''timeout''))
           (Inl (ClientError ''unused'')))
        (\<lambda>d s. Some d)
        (resourceWith ''Steps-1'' [(''deployment_process_id'', TString ''deploymentprocess-Projects-1'')]))
   \<and> wrapsError (ClientError ''conflict'')
     (resourceDeploymentStepDelete
        (clientReturning (Inl (ClientError ''unused''))
           (Inr \<lparr>ProcessID = ''deploymentprocess-Projects-1'', Steps = [stepWithId ''Steps-1'']\<rparr>)
           (Inl (ClientError ''conflict'')))
        (resourceWith ''Steps-1'' [(''deployment_process_id'', TString ''deploymentprocess-Projects-1'')]))"
  using handlers_propagate_client_errors [of
      "resourceWith [] [(''project_id'', TString ''Projects-1'')]" "''Projects-1''" "[]" "[]" "[]"
      "clientReturning (Inl (ClientError ''connection refused'')) (Inl ErrItemNotFound)
           (Inl (ClientError ''unused''))"
      "ClientError ''connection refused''" "\<lambda>d. Some (d, stepWithId [])"]
    handlers_propagate_client_errors [of
      "resourceWith [] [(''project_id'', TString ''Projects-1'')]" "''Projects-1''" "[]" "[]" "[]"
      "clientReturning (Inr \<lparr>DeploymentProcessID = ''deploymentprocess-Projects-1''\<rparr>)
           (Inl ErrItemNotFound) (Inl (ClientError ''unused''))"
      "ErrItemNotFound" "\<lambda>d. Some (d, stepWithId [])"]
    handlers_propagate_client_errors [of
      "resourceWith ''Steps-1'' [(''deployment_process_id'', TString ''deploymentprocess-Projects-1'')]"
      "[]" "''deploymentprocess-Projects-1''" "[]" "[]"
      "clientReturning (Inl (ClientError ''unused'')) (Inl (ClientError ''timeout''))
           (Inl (ClientError ''unused''))"
      "ClientError ''timeout''" "\<lambda>d. Some (d, stepWithId [])" "\<lambda>d s. Some d"]
    handlers_propagate_client_errors [of
      "resourceWith ''Steps-1'' [(''deployment_process_id'', TString ''deploymentprocess-Projects-1'')]"
      "[]" "''deploymentprocess-Projects-1''" "[]" "[]"
      "clientReturning (Inl (ClientError ''unused''))
           (Inr \<lparr>ProcessID = ''deploymentprocess-Projects-1'', Steps = [stepWithId ''Steps-1'']\<rparr>)
           (Inl (ClientError ''conflict''))"
      "ClientError ''conflict''" "\<lambda>d. Some (d, stepWithId [])" "\<lambda>d s. Some d"]
  by (simp add: getString_def resourceWith_def clientReturning_def)

section \<open>Round trips through the property bag\<close>

lemma rdFields_dSet: "rdFields (dSet k v d) key = (if key = k then Some v else rdFields d key)"
  by (simp add: dSet_def)

lemma dGetOk_dSet_block: "dGetOk (dSet k (TObjects (b # bs)) d) k = Some (TObjects (b # bs))"
  by (simp add: dGetOk_def dSet_def)

lemma actionProperties_setActionProperty:
  "setActionProperty k v s = Some s' \<Longrightarrow>
   actionProperties s' = map_option (\<lambda>m. m(k \<mapsto> v)) (actionProperties s)"
  by (auto simp: setActionProperty_def actionProperties_def split: list.splits)


lemma script_round_trip_PowerShell:
  "do {
     step \<leftarrow> resourceDeploymentStep_AddPackageProperties_DeployScript
               (dSet ''pre_deploy_script'' (TObjects [scriptBlock ''PowerShell'' body]) d)
               emptyStep ''pre'';
     d' \<leftarrow> resourceDeploymentStep_SetPackageSchema_DeployScript dRead step ''pre'';
     Some (blockField d' ''pre_deploy_script'' ''type'', blockField d' ''pre_deploy_script'' ''body'')
   } = Some (Some (VString ''PowerShell''), Some (VString body))"
  by (simp add: resourceDeploymentStep_AddPackageProperties_DeployScript_def
      resourceDeploymentStep_SetPackageSchema_DeployScript_def scriptSwitch_def
      scriptExtension_def dGetOk_dSet_block scriptBlock_def emptyStep_def
      setActionProperty_def appendActionProperty_def actionProperties_def propOf_def
      blockField_def rdFields_dSet)

lemma script_round_trip_FSharp:
  "do {
     step \<leftarrow> resourceDeploymentStep_AddPackageProperties_DeployScript
               (dSet ''post_deploy_script'' (TObjects [scriptBlock ''FSharp'' body]) d)
               emptyStep ''post'';
     d' \<leftarrow> resourceDeploymentStep_SetPackageSchema_DeployScript dRead step ''post'';
     Some (blockField d' ''post_deploy_script'' ''type'', blockField d' ''post_deploy_script'' ''body'')
   } = Some (Some (VString ''FSharp''), Some (VString body))"
  by (simp add: resourceDeploymentStep_AddPackageProperties_DeployScript_def
      resourceDeploymentStep_SetPackageSchema_DeployScript_def scriptSwitch_def
      scriptExtension_def dGetOk_dSet_block scriptBlock_def emptyStep_def
      setActionProperty_def appendActionProperty_def actionProperties_def propOf_def
      blockField_def rdFields_dSet)

lemma script_round_trip_Bash:
  "do {
     step \<leftarrow> resourceDeploymentStep_AddPackageProperties_DeployScript
               (dSet ''deploy_script'' (TObjects [scriptBlock ''Bash'' body]) d)
               emptyStep ''deploy'';
     d' \<leftarrow> resourceDeploymentStep_SetPackageSchema_DeployScript dRead step ''deploy'';
     Some (blockField d' ''deploy_script'' ''type'', blockField d' ''deploy_script'' ''body'')
   } = Some (Some (VString ''CSharp''), Some (VString body))"
  by (simp add: resourceDeploymentStep_AddPackageProperties_DeployScript_def
      resourceDeploymentStep_SetPackageSchema_DeployScript_def scriptSwitch_def
      scriptExtension_def dGetOk_dSet_block scriptBlock_def emptyStep_def
      setActionProperty_def appendActionProperty_def actionProperties_def propOf_def
      blockField_def rdFields_dSet)

text \<open>
  Claim C6 says that building the property bag from a script block and mapping it back
  restores the script type and body. The builder stores a \<^verbatim>\<open>CSharp\<close> script under the
  key ending in \<^verbatim>\<open>.csx\<close> and a \<^verbatim>\<open>Bash\<close> script under \<^verbatim>\<open>.sh\<close>; the setter reads
  \<^verbatim>\<open>.sh\<close> back as \<^verbatim>\<open>CSharp\<close> and \<^verbatim>\<open>.csx\<close> as \<^verbatim>\<open>Bash\<close>. The run below is the code on a
  deploy script of type \<^verbatim>\<open>CSharp\<close> with any body: the body comes back, the type comes
  back as \<^verbatim>\<open>Bash\<close>. (\<open>script_round_trip_Bash\<close> is the mirror image; the PowerShell and
  FSharp types do come back.)
\<close>

theorem script_round_trip_CSharp_reads_Bash:
  "do {
     step \<leftarrow> resourceDeploymentStep_AddPackageProperties_DeployScript
               (dSet ''deploy_script'' (TObjects [scriptBlock ''CSharp'' body]) d)
               emptyStep ''deploy'';
     d' \<leftarrow> resourceDeploymentStep_SetPackageSchema_DeployScript dRead step ''deploy'';
     Some (blockField d' ''deploy_script'' ''type'', blockField d' ''deploy_script'' ''body'')
   } = Some (Some (VString ''Bash''), Some (VString body))"
  by (simp add: resourceDeploymentStep_AddPackageProperties_DeployScript_def
      resourceDeploymentStep_SetPackageSchema_DeployScript_def scriptSwitch_def
      scriptExtension_def dGetOk_dSet_block scriptBlock_def emptyStep_def
      setActionProperty_def appendActionProperty_def actionProperties_def propOf_def
      blockField_def rdFields_dSet)

text \<open>
  Claim C7 says that the round trip restores every field of the application-pool block
  under its own key. The run below is the code on any block with all six fields: name,
  framework, identity and username come back; the setter stores the parsed start flag
  under the key \<^verbatim>\<open>password\<close>, so the key \<^verbatim>\<open>start\<close> is never written, and the
  password is replaced by a bool whenever the formatted start flag parses.
\<close>

theorem application_pool_round_trip:
  "do {
     step \<leftarrow> resourceDeploymentStep_AddIisAppPoolProperties h
               (dSet ''application_pool''
                  (TObjects [appPoolBlock name framework identity username password start]) d)
               emptyStep ''IISWebSite'';
     d' \<leftarrow> resourceDeploymentStep_SetIisAppPoolSchema dRead step ''IISWebSite'';
     Some (map (blockField d' ''application_pool'')
             [''name'', ''framework'', ''identity'', ''username'', ''password'', ''start''])
   } = Some [Some (VString name), Some (VString framework), Some (VString identity),
             Some (VString username),
             (case strconv_ParseBool (formatBool h start) of
                Some b \<Rightarrow> Some (VBool b) | None \<Rightarrow> Some (VString password)),
             None]"
  by (simp add: resourceDeploymentStep_AddIisAppPoolProperties_def
      resourceDeploymentStep_SetIisAppPoolSchema_def iisPropPrefix_def
      dGetOk_dSet_block appPoolBlock_def emptyStep_def
      setActionProperty_def actionProperties_def
      blockField_def rdFields_dSet split: option.splits)

subsection \<open>Bindings of the IIS website step\<close>

lemma setParsedBool_other:
  "key \<noteq> k' \<Longrightarrow> rdFields (setParsedBool props k k' d) key = rdFields d key"
  by (simp add: setParsedBool_def rdFields_dSet split: option.splits)

lemma setPresentString_other:
  "key \<noteq> k' \<Longrightarrow> rdFields (setPresentString props k k' d) key = rdFields d key"
  by (simp add: setPresentString_def rdFields_dSet split: option.splits)

lemma SetBasicSchema_binding:
  "resourceDeploymentStep_SetBasicSchema h d s = Some d' \<Longrightarrow>
   rdFields d' ''binding'' = rdFields d ''binding''"
  by (auto simp: resourceDeploymentStep_SetBasicSchema_def Let_def rdFields_dSet
      split: list.splits option.splits if_splits)

lemma SetDeployScript_binding:
  "resourceDeploymentStep_SetPackageSchema_DeployScript d s scriptType = Some d' \<Longrightarrow>
   rdFields d' ''binding'' = rdFields d ''binding''"
  by (auto simp: resourceDeploymentStep_SetPackageSchema_DeployScript_def scriptSwitch_def
      Let_def rdFields_dSet split: option.splits if_splits Option.bind_splits)

lemma SetPackageSchema_binding:
  "resourceDeploymentStep_SetPackageSchema d s = Some d' \<Longrightarrow>
   rdFields d' ''binding'' = rdFields d ''binding''"
  by (auto simp: resourceDeploymentStep_SetPackageSchema_def Let_def rdFields_dSet
      setParsedBool_other setPresentString_other
      split: Option.bind_splits option.splits if_splits
      dest!: SetDeployScript_binding)

lemma SetIisAppPoolSchema_binding:
  "resourceDeploymentStep_SetIisAppPoolSchema d s iisType = Some d' \<Longrightarrow>
   rdFields d' ''binding'' = rdFields d ''binding''"
  by (auto simp: resourceDeploymentStep_SetIisAppPoolSchema_def Let_def rdFields_dSet
      split: Option.bind_splits)

lemma setIisWebsiteSchema_binding:
  "setIisWebsiteSchema h d s = Some d' \<Longrightarrow> rdFields d' ''binding'' = rdFields d ''binding''"
  by (auto simp: setIisWebsiteSchema_def Let_def rdFields_dSet
      setParsedBool_other setPresentString_other split: Option.bind_splits
      dest!: SetBasicSchema_binding SetPackageSchema_binding SetIisAppPoolSchema_binding)

lemma buildIisWebsiteDeploymentStep_websiteConfig:
  "\<exists>d1 step a rest. buildIisWebsiteDeploymentStep h websiteConfig = Some (d1, step)
      \<and> Actions step = a # rest
      \<and> ActionProperties a ''Octopus.Action.IISWebSite.Bindings'' =
          Some (json_Marshal h
             [\<lparr>Protocol = formatStrPtr h ''https'', IpAddress = formatStrPtr h ''*'',
               Port = formatStrPtr h ''443'', Host = formatStrPtr h ''example.org'',
               Thumbprint = formatStrPtr h ''ABCDEF'', CertificateVariable = formatStrPtr h [],
               RequireSni = False, Enabled = True\<rparr>])"
  by (simp add: buildIisWebsiteDeploymentStep_def websiteConfig_def resourceWith_def
      resourceDeploymentStep_CreateBasicStep_def resourceDeploymentStep_AddPackageProperties_def
      resourceDeploymentStep_AddPackageProperties_DeployScript_def scriptSwitch_def
      resourceDeploymentStep_AddIisAppPoolProperties_def iisPropPrefix_def
      getString_def getBool_def dGetOk_def dSet_def appPoolBlock_def bindingBlock_def
      setActionProperty_def appendActionProperty_def actionProperties_def propOf_def)

lemma SetDeployScript_returns:
  "Actions s = a # rest \<Longrightarrow>
   resourceDeploymentStep_SetPackageSchema_DeployScript d s scriptType \<noteq> None"
  by (simp add: resourceDeploymentStep_SetPackageSchema_DeployScript_def actionProperties_def
      Let_def split: prod.splits)

lemma SetPackageSchema_returns:
  assumes "Actions s = a # rest"
  shows "resourceDeploymentStep_SetPackageSchema d s \<noteq> None"
proof -
  have ap: "actionProperties s = Some (ActionProperties a)"
    using assms by (simp add: actionProperties_def)
  show ?thesis
    by (simp add: resourceDeploymentStep_SetPackageSchema_def Let_def ap bind_eq_None_conv
        SetDeployScript_returns[OF assms])
qed

lemma setIisWebsiteSchema_returns:
  assumes "Actions s = a # rest"
  shows "\<exists>d'. setIisWebsiteSchema h d s = Some d'"
proof -
  obtain d1 where d1: "resourceDeploymentStep_SetBasicSchema h d s = Some d1"
    using assms by (simp add: resourceDeploymentStep_SetBasicSchema_def Let_def)
  obtain d2 where d2: "resourceDeploymentStep_SetPackageSchema d1 s = Some d2"
    using SetPackageSchema_returns[OF assms, of d1] by blast
  obtain d3 where d3: "resourceDeploymentStep_SetIisAppPoolSchema d2 s ''IISWebSite'' = Some d3"
    using assms by (simp add: resourceDeploymentStep_SetIisAppPoolSchema_def Let_def
        actionProperties_def)
  have ap: "actionProperties s = Some (ActionProperties a)"
    using assms by (simp add: actionProperties_def)
  show ?thesis
    by (simp add: setIisWebsiteSchema_def d1 d2 d3 ap Let_def)
qed

lemma buildIisWebsiteDeploymentStep_binding:
  "buildIisWebsiteDeploymentStep h d = Some (d1, step) \<Longrightarrow>
   rdFields d1 ''binding'' = rdFields d ''binding''"
  apply (clarsimp simp: buildIisWebsiteDeploymentStep_def Let_def bind_eq_Some_conv)
  apply (auto simp: bind_eq_Some_conv rdFields_dSet split: option.splits)
  done

lemma dGetOk_dSet_other: "key \<noteq> k \<Longrightarrow> dGetOk (dSet k v d) key = dGetOk d key"
  by (simp add: dGetOk_def dSet_def)

lemma setActionProperty_lookup:
  "setActionProperty k v s = Some s' \<Longrightarrow>
   \<exists>z. actionProperties s' = Some z \<and> z k = Some v"
  by (auto simp: setActionProperty_def actionProperties_def split: list.splits)

lemma buildIisWebsiteDeploymentStep_writes_bindings:
  "buildIisWebsiteDeploymentStep h d = Some (d1, step) \<Longrightarrow>
   \<exists>bs. (case dGetOk d ''binding'' of
           Some rawBindings \<Rightarrow> Option.bind (asObjects rawBindings) (flattenBindings h)
         | None \<Rightarrow> Some [defaultBinding h]) = Some bs
      \<and> map_option (\<lambda>props. props ''Octopus.Action.IISWebSite.Bindings'') (actionProperties step)
          = Some (Some (json_Marshal h bs))"
  apply (clarsimp simp: buildIisWebsiteDeploymentStep_def Let_def bind_eq_Some_conv)
  apply (auto simp: bind_eq_Some_conv dGetOk_dSet_other split: option.splits
      intro: setActionProperty_lookup)
  done

text \<open>
  Claim C8, as stated: building the property bag from a binding configuration and then
  reverse-mapping it on read restores the binding fields. The setter has no reverse
  mapping for bindings (it ends at \<^verbatim>\<open>TODO: Expand Bindings\<close>). The run: the step is
  built from a configuration whose binding names port \<^verbatim>\<open>443\<close> and is read into the
  resource data of the same resource whose stored binding names port \<^verbatim>\<open>8443\<close>; after
  the read the stored binding still names \<^verbatim>\<open>8443\<close>.
\<close>

theorem iis_bindings_read_counterexample:
  "do {
     (d1, step) \<leftarrow> buildIisWebsiteDeploymentStep sampleHelpers websiteConfig;
     d' \<leftarrow> setIisWebsiteSchema sampleHelpers websiteState step;
     Some (blockField d' ''binding'' ''port'')
   } = Some (Some (VString ''8443''))
   \<and> blockField websiteConfig ''binding'' ''port'' = Some (VString ''443'')"
proof -
  obtain d1 step a rest where
    b: "buildIisWebsiteDeploymentStep sampleHelpers websiteConfig = Some (d1, step)"
    and acts: "Actions step = a # rest"
    using buildIisWebsiteDeploymentStep_websiteConfig[of sampleHelpers] by blast
  obtain d' where s: "setIisWebsiteSchema sampleHelpers websiteState step = Some d'"
    using setIisWebsiteSchema_returns[OF acts] by blast
  have "rdFields d' ''binding'' = rdFields websiteState ''binding''"
    by (rule setIisWebsiteSchema_binding[OF s])
  then have "blockField d' ''binding'' ''port'' = Some (VString ''8443'')"
    by (simp add: blockField_def websiteState_def dSetId_def dSet_def bindingBlock_def)
  moreover have "blockField websiteConfig ''binding'' ''port'' = Some (VString ''443'')"
    by (simp add: blockField_def websiteConfig_def resourceWith_def bindingBlock_def)
  ultimately show ?thesis
    by (simp add: b s)
qed

text \<open>
  Claim C8, amended. The mapping for bindings goes one way. Whenever the builder
  returns, it has written the JSON text of the flattened \<^verbatim>\<open>binding\<close> blocks (of the
  default HTTP binding when none is configured) to the property
  \<^verbatim>\<open>Octopus.Action.IISWebSite.Bindings\<close> and has left the \<^verbatim>\<open>binding\<close> key of the
  resource data as configured; whenever the setter returns, the \<^verbatim>\<open>binding\<close> key of the
  resource data it was given is as it found it. So a read into the resource data the
  build left still shows the configured bindings, and a read never takes bindings from
  the property bag.
\<close>

theorem iis_bindings_one_way:
  assumes "buildIisWebsiteDeploymentStep h d = Some (d1, step)"
    and "setIisWebsiteSchema h d0 step = Some d'"
  shows "(\<exists>bs. (case dGetOk d ''binding'' of
                  Some rawBindings \<Rightarrow> Option.bind (asObjects rawBindings) (flattenBindings h)
                | None \<Rightarrow> Some [defaultBinding h]) = Some bs
             \<and> map_option (\<lambda>props. props ''Octopus.Action.IISWebSite.Bindings'')
                  (actionProperties step) = Some (Some (json_Marshal h bs)))
       \<and> rdFields d1 ''binding'' = rdFields d ''binding''
       \<and> rdFields d' ''binding'' = rdFields d0 ''binding''"
  using buildIisWebsiteDeploymentStep_writes_bindings[OF assms(1)]
    buildIisWebsiteDeploymentStep_binding[OF assms(1)]
    setIisWebsiteSchema_binding[OF assms(2)]
  by blast

theorem iis_bindings_one_way_witness:
  "do {
     (d1, step) \<leftarrow> buildIisWebsiteDeploymentStep sampleHelpers websiteConfig;
     d' \<leftarrow> setIisWebsiteSchema sampleHelpers d1 step;
     Some (blockField d' ''binding'' ''port'')
   } = Some (Some (VString ''443''))"
proof -
  obtain d1 step a rest where
    b: "buildIisWebsiteDeploymentStep sampleHelpers websiteConfig = Some (d1, step)"
    and acts: "Actions step = a # rest"
    using buildIisWebsiteDeploymentStep_websiteConfig[of sampleHelpers] by blast
  obtain d' where s: "setIisWebsiteSchema sampleHelpers d1 step = Some d'"
    using setIisWebsiteSchema_returns[OF acts] by blast
  from iis_bindings_one_way[OF b s]
  have "rdFields d' ''binding'' = rdFields websiteConfig ''binding''"
    by simp
  then have "blockField d' ''binding'' ''port'' = Some (VString ''443'')"
    by (simp add: blockField_def websiteConfig_def resourceWith_def bindingBlock_def)
  then show ?thesis
    by (simp add: b s)
qed

end
